theory Spec2Isabelle
  imports Complex_Main "HOL-Library.Sublist"
begin

section \<open>Strings, numbers and time\<close>

text \<open>
  JavaScript strings are modelled as \<^typ>\<open>string\<close>; all literals the code searches for are
  ASCII. A point in time (\<open>Date.now()\<close>, \<open>new Date()\<close>) is an \<^typ>\<open>int\<close> of milliseconds
  since the epoch; every operation reads the clock once and receives that reading as its
  argument \<open>now\<close>.
\<close>

text \<open>\<open>String.prototype.includes\<close>: some position of the receiver starts an occurrence of
  the search string. The comparison is by code unit, hence case-sensitive.\<close>

fun includes_str :: "string \<Rightarrow> string \<Rightarrow> bool" where
  "includes_str [] searchString = (searchString = [])"
| "includes_str (c # cs) searchString = (prefix searchString (c # cs) \<or> includes_str cs searchString)"

text \<open>Decimal rendering of a number inside a template literal.\<close>

fun digitsOf :: "nat \<Rightarrow> string" where
  "digitsOf n = (if n < 10 then [''0123456789'' ! n]
                 else digitsOf (n div 10) @ [''0123456789'' ! (n mod 10)])"

declare digitsOf.simps [simp del]

definition toString :: "int \<Rightarrow> string" where
  "toString i = (if i < 0 then CHR ''-'' # digitsOf (nat (- i)) else digitsOf (nat i))"

section \<open>Identity (AuthContext)\<close>

datatype role = RoleUser | RoleAdmin

datatype userType = General | AdminType

text \<open>The \<open>User\<close> interface, restricted to the fields the record stores and the session
  check read (\<open>id\<close>, \<open>name\<close>, \<open>email\<close>, \<open>role\<close>, \<open>userType\<close>); counters, achievements and
  profile texts play no part in them.\<close>

record user =
  u_id :: string
  u_name :: string
  u_email :: string
  u_role :: role
  u_userType :: userType

text \<open>The payload \<open>{user, iat, exp}\<close> of a token; \<open>iat\<close> and \<open>exp\<close> are in seconds.\<close>

record tokenPayload =
  p_user :: user
  p_iat :: int
  p_exp :: int

section \<open>Notifications (NotificationContext)\<close>

datatype ntype = NSuccess | NError | NInfo | NWarning

record notification =
  n_id :: string
  n_type :: ntype
  n_title :: string
  n_message :: string
  n_timestamp :: int
  n_read :: bool

section \<open>Classification results (ClassificationContext)\<close>

datatype safetyLevel = Low | Medium | High

text \<open>\<open>'Highly Reusable' | 'Moderate' | 'Non-reusable'\<close>\<close>

datatype reusabilityLabel = HighlyReusable | Moderate | NonReusable

record location =
  latitude :: real
  longitude :: real
  city :: string
  country :: string

record classificationResult =
  c_id :: string
  c_userId :: string
  c_itemName :: string
  c_category :: string
  c_hazardousMaterials :: "string list"
  c_safetyLevel :: safetyLevel
  c_recommendations :: "string list"
  c_confidence :: real
  c_reusabilityScore :: int
  c_reusabilityLabel :: reusabilityLabel
  c_imageUrl :: string
  c_timestamp :: int
  c_location :: "location option"

text \<open>\<open>Omit<ClassificationResult, 'id' | 'userId' | 'timestamp'>\<close>: what a caller hands to
  \<open>addClassification\<close>. It still has a score and a label.\<close>

record classificationDraft =
  d_itemName :: string
  d_category :: string
  d_hazardousMaterials :: "string list"
  d_safetyLevel :: safetyLevel
  d_recommendations :: "string list"
  d_confidence :: real
  d_reusabilityScore :: int
  d_reusabilityLabel :: reusabilityLabel
  d_imageUrl :: string
  d_location :: "location option"

section \<open>Reports (ReportContext)\<close>

datatype reportType = Classification | Summary | Analysis | Uploaded

datatype reportStatus = Completed | Processing | Failed

datatype exportFormat = Pdf | Pptx | Csv

text \<open>\<open>content: any\<close> is opaque to the store; it is carried as a string.\<close>

record report =
  r_id :: string
  r_userId :: string
  r_title :: string
  r_type :: reportType
  r_content :: string
  r_createdAt :: int
  r_updatedAt :: int
  r_size :: string
  r_status :: reportStatus
  r_downloadCount :: int
  r_isPublic :: bool
  r_tags :: "string list"
  r_fileUrl :: "string option"

text \<open>\<open>Omit<Report, 'id' | 'userId' | 'createdAt' | 'updatedAt' | 'downloadCount'>\<close>\<close>

record reportData =
  rd_title :: string
  rd_type :: reportType
  rd_content :: string
  rd_size :: string
  rd_status :: reportStatus
  rd_isPublic :: bool
  rd_tags :: "string list"
  rd_fileUrl :: "string option"

text \<open>\<open>Partial<Report>\<close>: every field may be present or absent.\<close>

record reportUpdates =
  up_id :: "string option"
  up_userId :: "string option"
  up_title :: "string option"
  up_type :: "reportType option"
  up_content :: "string option"
  up_createdAt :: "int option"
  up_updatedAt :: "int option"
  up_size :: "string option"
  up_status :: "reportStatus option"
  up_downloadCount :: "int option"
  up_isPublic :: "bool option"
  up_tags :: "string list option"
  up_fileUrl :: "string option"

section \<open>The application state\<close>

text \<open>
  The React state of the four providers together with the part of \<open>localStorage\<close> they
  use. A key that is absent from \<open>localStorage\<close> is always read through \<open>|| '[]'\<close>, so a list
  valued key is a list that is empty when the key is absent:
  \<^item> \<open>user\<close>, \<open>isLoading\<close>: state of the AuthProvider; \<open>token\<close>: key \<open>token\<close>;
    \<open>registeredUsers\<close>: key \<open>registeredUsers\<close>;
  \<^item> \<open>notifications\<close>: state of the NotificationProvider; \<open>toasts\<close>: the toasts handed to
    the toast library, oldest first;
  \<^item> \<open>classifications\<close>: state of the ClassificationProvider; \<open>ls_classifications uid\<close>:
    key \<open>classifications_<uid>\<close>;
  \<^item> \<open>reports\<close>: state of the ReportProvider; \<open>ls_reports\<close>: key \<open>reports\<close>.
  A function of a provider is a closure of one render of that provider. The four
  \<open>show...\<close> functions read the \<open>notifications\<close> array their render captured; it is their
  argument \<open>rendered\<close>, and it is older than the buffer when the buffer has changed since
  that render. Insertion is a functional update and works on the buffer as it is. An
  operation of the two stores is called from a render that has seen the state \<open>st\<close> it is
  applied to, so every \<open>show...\<close> function it calls carries the array \<open>notifications st\<close>.
\<close>

record state =
  user :: "user option"
  isLoading :: bool
  token :: "string option"
  registeredUsers :: "user list"
  notifications :: "notification list"
  toasts :: "(ntype \<times> string) list"
  classifications :: "classificationResult list"
  ls_classifications :: "string \<Rightarrow> classificationResult list"
  reports :: "report list"
  ls_reports :: "report list"

text \<open>How an operation ended. The source returns nothing and tells the outcome by the
  message it passes to \<open>showError\<close> or \<open>showSuccess\<close>; the model returns it as well:
  \<open>NotLoggedIn\<close> for "You must be logged in ...", \<open>NotFound\<close> for "... not found",
  \<open>PermissionDenied\<close> for "You can only ... your own ..." and "You do not have permission
  ...", \<open>ExportFailed\<close> for "Failed to download ...", \<open>Done\<close> for the success path.\<close>

datatype outcome = Done | NotLoggedIn | NotFound | PermissionDenied | ExportFailed

text \<open>\<open>isAdmin: user?.role === 'admin' || user?.userType === 'admin'\<close>\<close>

definition isAdmin :: "state \<Rightarrow> bool" where
  "isAdmin st = (case user st of None \<Rightarrow> False
                 | Some u \<Rightarrow> u_role u = RoleAdmin \<or> u_userType u = AdminType)"

subsection \<open>Notification operations\<close>

definition addNotification :: "int \<Rightarrow> ntype \<Rightarrow> string \<Rightarrow> string \<Rightarrow> state \<Rightarrow> state" where
  "addNotification now ty title message st =
     (let newNotification = \<lparr> n_id = toString now, n_type = ty, n_title = title,
                               n_message = message, n_timestamp = now, n_read = False \<rparr>
      in st\<lparr> notifications := newNotification # take 9 (notifications st),
              toasts := toasts st @ [(ty, message)] \<rparr>)"

definition markAsRead :: "string \<Rightarrow> state \<Rightarrow> state" where
  "markAsRead ident st =
     st\<lparr> notifications := map (\<lambda>n. if n_id n = ident then n\<lparr> n_read := True \<rparr> else n)
                                (notifications st) \<rparr>"

definition clearNotifications :: "state \<Rightarrow> state" where
  "clearNotifications st = st\<lparr> notifications := [] \<rparr>"

definition unreadCount :: "state \<Rightarrow> nat" where
  "unreadCount st = length (filter (\<lambda>n. \<not> n_read n) (notifications st))"

text \<open>The test the four \<open>show...\<close> functions make, on the array of their render, before
  they add a notification.\<close>

definition isDuplicate :: "int \<Rightarrow> ntype \<Rightarrow> string \<Rightarrow> notification list \<Rightarrow> bool" where
  "isDuplicate now ty message rendered =
     list_ex (\<lambda>n. n_message n = message \<and> n_type n = ty \<and> now - n_timestamp n < 5000)
             rendered"

text \<open>\<open>rendered\<close> is the \<open>notifications\<close> array of the render that made the function, \<open>st\<close>
  the state at the call. The optional \<open>title\<close> argument is \<open>None\<close> when the caller leaves it
  out.\<close>

definition showSuccess ::
  "notification list \<Rightarrow> string \<Rightarrow> string option \<Rightarrow> int \<Rightarrow> state \<Rightarrow> state" where
  "showSuccess rendered message title now st =
     (if \<not> isDuplicate now NSuccess message rendered
      then addNotification now NSuccess (case title of None \<Rightarrow> ''Success'' | Some t \<Rightarrow> t) message st
      else st)"

definition showError ::
  "notification list \<Rightarrow> string \<Rightarrow> string option \<Rightarrow> int \<Rightarrow> state \<Rightarrow> state" where
  "showError rendered message title now st =
     (if \<not> isDuplicate now NError message rendered
      then addNotification now NError (case title of None \<Rightarrow> ''Error'' | Some t \<Rightarrow> t) message st
      else st)"

definition showInfo ::
  "notification list \<Rightarrow> string \<Rightarrow> string option \<Rightarrow> int \<Rightarrow> state \<Rightarrow> state" where
  "showInfo rendered message title now st =
     (if \<not> isDuplicate now NInfo message rendered
      then addNotification now NInfo (case title of None \<Rightarrow> ''Information'' | Some t \<Rightarrow> t) message st
      else st)"

definition showWarning ::
  "notification list \<Rightarrow> string \<Rightarrow> string option \<Rightarrow> int \<Rightarrow> state \<Rightarrow> state" where
  "showWarning rendered message title now st =
     (if \<not> isDuplicate now NWarning message rendered
      then addNotification now NWarning (case title of None \<Rightarrow> ''Warning'' | Some t \<Rightarrow> t) message st
      else st)"

text \<open>A call of one of the four, chosen by its kind.\<close>

fun notify ::
  "notification list \<Rightarrow> ntype \<Rightarrow> string option \<Rightarrow> string \<Rightarrow> int \<Rightarrow> state \<Rightarrow> state" where
  "notify rendered NSuccess title message now st = showSuccess rendered message title now st"
| "notify rendered NError title message now st = showError rendered message title now st"
| "notify rendered NInfo title message now st = showInfo rendered message title now st"
| "notify rendered NWarning title message now st = showWarning rendered message title now st"

text \<open>A call made from a render that has seen the buffer as it is at the call.\<close>

definition notifyCurrent :: "ntype \<Rightarrow> string option \<Rightarrow> string \<Rightarrow> int \<Rightarrow> state \<Rightarrow> state" where
  "notifyCurrent ty title message now st = notify (notifications st) ty title message now st"

subsection \<open>Classification store\<close>

definition calculateReusabilityScore :: "string \<Rightarrow> string \<Rightarrow> string list \<Rightarrow> int" where
  "calculateReusabilityScore itemName category hazardousMaterials =
     (let score = 70;
          score = score - int (length hazardousMaterials) * 15;
          score = (if includes_str category ''Battery'' then score - 30 else score);
          score = (if includes_str category ''Cable'' \<or> includes_str category ''Accessory''
                   then score + 20 else score);
          score = (if includes_str category ''Phone'' \<or> includes_str category ''Computer''
                   then score + 10 else score);
          score = max 0 (min 100 score)
      in score)"

definition getReusabilityLabel :: "int \<Rightarrow> reusabilityLabel" where
  "getReusabilityLabel score =
     (if score \<ge> 70 then HighlyReusable
      else if score \<ge> 40 then Moderate
      else NonReusable)"

text \<open>The object literal \<open>{...result, id, userId, timestamp, reusabilityScore,
  reusabilityLabel}\<close> of \<open>addClassification\<close>: the fields written after the spread replace
  those of \<open>result\<close>.\<close>

definition newClassification :: "int \<Rightarrow> user \<Rightarrow> classificationDraft \<Rightarrow> classificationResult" where
  "newClassification now u result =
     (let reusabilityScore = calculateReusabilityScore (d_itemName result) (d_category result)
                               (d_hazardousMaterials result)
      in \<lparr> c_id = ''classification-'' @ toString now,
           c_userId = u_id u,
           c_itemName = d_itemName result,
           c_category = d_category result,
           c_hazardousMaterials = d_hazardousMaterials result,
           c_safetyLevel = d_safetyLevel result,
           c_recommendations = d_recommendations result,
           c_confidence = d_confidence result,
           c_reusabilityScore = reusabilityScore,
           c_reusabilityLabel = getReusabilityLabel reusabilityScore,
           c_imageUrl = d_imageUrl result,
           c_timestamp = now,
           c_location = d_location result \<rparr>)"

definition addClassification :: "int \<Rightarrow> classificationDraft \<Rightarrow> state \<Rightarrow> outcome \<times> state" where
  "addClassification now result st =
     (case user st of
        None \<Rightarrow> (NotLoggedIn,
                 showError (notifications st) ''You must be logged in to classify items'' None now
                   st)
      | Some u \<Rightarrow>
          (let updatedClassifications = newClassification now u result # classifications st;
               st1 = st\<lparr> classifications := updatedClassifications,
                         ls_classifications :=
                           (ls_classifications st)(u_id u := updatedClassifications) \<rparr>
           in (Done,
               showSuccess (notifications st)
                 (''Successfully classified '' @ d_itemName result @ ''! '' @
                  (if length (d_hazardousMaterials result) > 0
                   then ''Hazardous materials detected.''
                   else ''No hazardous materials found.''))
                 (Some ''Classification Complete'') now st1)))"

definition getUserClassifications :: "state \<Rightarrow> classificationResult list" where
  "getUserClassifications st =
     (case user st of
        None \<Rightarrow> []
      | Some u \<Rightarrow> filter (\<lambda>c. c_userId c = u_id u) (classifications st))"

text \<open>For an admin the records are read from \<open>localStorage\<close>, one key per registered user,
  and sorted by \<open>b.timestamp - a.timestamp\<close> (newest first; \<open>Array.prototype.sort\<close> is
  stable, as \<^const>\<open>sort_key\<close> is).\<close>

definition getAllClassifications :: "state \<Rightarrow> classificationResult list" where
  "getAllClassifications st =
     (if \<not> isAdmin st then getUserClassifications st
      else sort_key (\<lambda>c. - c_timestamp c)
             (concat (map (\<lambda>u. ls_classifications st (u_id u)) (registeredUsers st))))"

subsection \<open>Report store\<close>

definition createReport :: "int \<Rightarrow> reportData \<Rightarrow> state \<Rightarrow> outcome \<times> state" where
  "createReport now rd st =
     (case user st of
        None \<Rightarrow> (NotLoggedIn,
                 showError (notifications st) ''You must be logged in to create reports'' None now
                   st)
      | Some u \<Rightarrow>
          (let newReport = \<lparr> r_id = ''report-'' @ toString now,
                             r_userId = u_id u,
                             r_title = rd_title rd,
                             r_type = rd_type rd,
                             r_content = rd_content rd,
                             r_createdAt = now,
                             r_updatedAt = now,
                             r_size = rd_size rd,
                             r_status = rd_status rd,
                             r_downloadCount = 0,
                             r_isPublic = rd_isPublic rd,
                             r_tags = rd_tags rd,
                             r_fileUrl = rd_fileUrl rd \<rparr>;
               st1 = st\<lparr> reports := newReport # reports st,
                         ls_reports := newReport # ls_reports st \<rparr>
           in (Done,
               showSuccess (notifications st) ''Report created successfully!'' None now st1)))"

text \<open>\<open>{...report, ...updates}\<close>: a field present in \<open>updates\<close> replaces the report's.\<close>

definition applyUpdates :: "report \<Rightarrow> reportUpdates \<Rightarrow> report" where
  "applyUpdates r up =
     \<lparr> r_id = (case up_id up of None \<Rightarrow> r_id r | Some v \<Rightarrow> v),
       r_userId = (case up_userId up of None \<Rightarrow> r_userId r | Some v \<Rightarrow> v),
       r_title = (case up_title up of None \<Rightarrow> r_title r | Some v \<Rightarrow> v),
       r_type = (case up_type up of None \<Rightarrow> r_type r | Some v \<Rightarrow> v),
       r_content = (case up_content up of None \<Rightarrow> r_content r | Some v \<Rightarrow> v),
       r_createdAt = (case up_createdAt up of None \<Rightarrow> r_createdAt r | Some v \<Rightarrow> v),
       r_updatedAt = (case up_updatedAt up of None \<Rightarrow> r_updatedAt r | Some v \<Rightarrow> v),
       r_size = (case up_size up of None \<Rightarrow> r_size r | Some v \<Rightarrow> v),
       r_status = (case up_status up of None \<Rightarrow> r_status r | Some v \<Rightarrow> v),
       r_downloadCount = (case up_downloadCount up of None \<Rightarrow> r_downloadCount r | Some v \<Rightarrow> v),
       r_isPublic = (case up_isPublic up of None \<Rightarrow> r_isPublic r | Some v \<Rightarrow> v),
       r_tags = (case up_tags up of None \<Rightarrow> r_tags r | Some v \<Rightarrow> v),
       r_fileUrl = (case up_fileUrl up of None \<Rightarrow> r_fileUrl r | Some v \<Rightarrow> Some v) \<rparr>"

text \<open>\<open>report.userId !== user?.id\<close>: with no user the right side is \<open>undefined\<close> and the
  two differ.\<close>

definition notOwner :: "report \<Rightarrow> state \<Rightarrow> bool" where
  "notOwner r st = (case user st of None \<Rightarrow> True | Some u \<Rightarrow> r_userId r \<noteq> u_id u)"

text \<open>\<open>updateReport\<close> as a closure of the render whose notifications array is
  \<open>rendered\<close>.\<close>

definition updateReportFrom ::
  "notification list \<Rightarrow> int \<Rightarrow> string \<Rightarrow> reportUpdates \<Rightarrow> state \<Rightarrow> outcome \<times> state" where
  "updateReportFrom rendered now ident updates st =
     (case find (\<lambda>r. r_id r = ident) (reports st) of
        None \<Rightarrow> (NotFound, showError rendered ''Report not found'' None now st)
      | Some rep \<Rightarrow>
          if \<not> isAdmin st \<and> notOwner rep st
          then (PermissionDenied,
                showError rendered ''You can only edit your own reports'' None now st)
          else
            (let updatedReport = (applyUpdates rep updates)\<lparr> r_updatedAt := now \<rparr>;
                 st1 = st\<lparr> reports := map (\<lambda>r. if r_id r = ident then updatedReport else r)
                                           (reports st),
                           ls_reports := map (\<lambda>r. if r_id r = ident then updatedReport else r)
                                           (ls_reports st) \<rparr>
             in (Done, showSuccess rendered ''Report updated successfully!'' None now st1)))"

text \<open>\<open>updateReport\<close> called from a render that has seen \<open>st\<close>.\<close>

definition updateReport :: "int \<Rightarrow> string \<Rightarrow> reportUpdates \<Rightarrow> state \<Rightarrow> outcome \<times> state" where
  "updateReport now ident updates st = updateReportFrom (notifications st) now ident updates st"

definition deleteReport :: "int \<Rightarrow> string \<Rightarrow> state \<Rightarrow> outcome \<times> state" where
  "deleteReport now ident st =
     (case find (\<lambda>r. r_id r = ident) (reports st) of
        None \<Rightarrow> (NotFound, showError (notifications st) ''Report not found'' None now st)
      | Some rep \<Rightarrow>
          if \<not> isAdmin st \<and> notOwner rep st
          then (PermissionDenied,
                showError (notifications st) ''You can only delete your own reports'' None now st)
          else
            (let st1 = st\<lparr> reports := filter (\<lambda>r. r_id r \<noteq> ident) (reports st),
                           ls_reports := filter (\<lambda>r. r_id r \<noteq> ident) (ls_reports st) \<rparr>
             in (Done,
                 showSuccess (notifications st) ''Report deleted successfully!'' None now st1)))"

text \<open>\<open>format.toUpperCase()\<close> on the three formats.\<close>

fun formatUpper :: "exportFormat \<Rightarrow> string" where
  "formatUpper Pdf = ''PDF''"
| "formatUpper Pptx = ''PPTX''"
| "formatUpper Csv = ''CSV''"

definition noUpdates :: reportUpdates where
  "noUpdates = \<lparr> up_id = None, up_userId = None, up_title = None, up_type = None,
                 up_content = None, up_createdAt = None, up_updatedAt = None, up_size = None,
                 up_status = None, up_downloadCount = None, up_isPublic = None, up_tags = None,
                 up_fileUrl = None \<rparr>"

text \<open>
  \<open>downloadReport\<close>. The three generators (\<open>generatePDFReport\<close>, \<open>generatePPTXReport\<close>,
  \<open>generateCSVReport\<close>) write files through browser and PDF libraries; the store only sees
  whether the one it awaits completes or throws. They are the parameter \<open>generate\<close>:
  \<open>generate format report\<close> is \<open>True\<close> when the generator completes and \<open>False\<close> when it
  throws, which takes the \<open>catch\<close> branch. \<open>now\<close> is the time of the call and \<open>later\<close> the
  time after the awaited work. The \<open>updateReport\<close> and the \<open>show...\<close> functions called after
  the wait are still those of the render of the call.
\<close>

definition downloadReport ::
  "(exportFormat \<Rightarrow> report \<Rightarrow> bool) \<Rightarrow> int \<Rightarrow> int \<Rightarrow> string \<Rightarrow> exportFormat \<Rightarrow> state
     \<Rightarrow> outcome \<times> state" where
  "downloadReport generate now later ident format st =
     (case find (\<lambda>r. r_id r = ident) (reports st) of
        None \<Rightarrow> (NotFound, showError (notifications st) ''Report not found'' None now st)
      | Some rep \<Rightarrow>
          if \<not> isAdmin st \<and> notOwner rep st \<and> \<not> r_isPublic rep
          then (PermissionDenied,
                showError (notifications st)
                  ''You do not have permission to download this report'' None now st)
          else
            (let st1 = showInfo (notifications st)
                         (''Preparing '' @ formatUpper format @ '' download...'') None now st
             in if generate format rep
                then
                  (let st2 = snd (updateReportFrom (notifications st) later ident
                                    (noUpdates\<lparr> up_downloadCount := Some (r_downloadCount rep + 1) \<rparr>)
                                    st1)
                   in (Done,
                       showSuccess (notifications st)
                         (formatUpper format @ '' report downloaded successfully!'')
                         None later st2))
                else (ExportFailed,
                      showError (notifications st)
                        (''Failed to download '' @ formatUpper format @ '' report'')
                        None later st1)))"

definition getUserReports :: "state \<Rightarrow> report list" where
  "getUserReports st =
     (case user st of
        None \<Rightarrow> []
      | Some u \<Rightarrow> filter (\<lambda>r. r_userId r = u_id u) (reports st))"

definition getAllReports :: "state \<Rightarrow> report list" where
  "getAllReports st = (if \<not> isAdmin st then getUserReports st else reports st)"

subsection \<open>Session check on start (AuthContext)\<close>

text \<open>
  \<open>initializeAuth\<close>. \<open>jwtDecode\<close> belongs to the library \<open>jwt-decode\<close> and is a parameter:
  \<open>None\<close> when it throws on a malformed token, otherwise the decoded payload.
  \<open>updateLastLogin\<close> only writes to the console.
\<close>

definition initializeAuth :: "(string \<Rightarrow> tokenPayload option) \<Rightarrow> int \<Rightarrow> state \<Rightarrow> state" where
  "initializeAuth jwtDecode now st =
     (case token st of
        None \<Rightarrow> st\<lparr> isLoading := False \<rparr>
      | Some tok \<Rightarrow>
          (case jwtDecode tok of
             None \<Rightarrow> st\<lparr> token := None, isLoading := False \<rparr>
           | Some decoded \<Rightarrow>
               if p_exp decoded * 1000 > now
               then st\<lparr> user := Some (p_user decoded), isLoading := False \<rparr>
               else st\<lparr> token := None,
                        toasts := toasts st @ [(NError, ''Session expired. Please login again.'')],
                        isLoading := False \<rparr>))"

subsection \<open>Change of user (ClassificationContext)\<close>

text \<open>The effect that runs when \<open>user\<close> changes: the classifications of the new user are
  read from that user's key, and none are kept when nobody is logged in.\<close>

definition loadClassifications :: "state \<Rightarrow> state" where
  "loadClassifications st =
     st\<lparr> classifications := (case user st of
                                None \<Rightarrow> []
                              | Some u \<Rightarrow> ls_classifications st (u_id u)) \<rparr>"

section \<open>The specification's formulas\<close>

text \<open>
  The derived score as the specification writes it: start at 70, subtract 15 for each
  hazardous material, subtract 30 for a category containing "Battery", add 20 for "Cable"
  or "Accessory", add 10 for "Phone" or "Computer", clamp to 0..100. What "contains" means
  is the parameter \<open>contains\<close>.
\<close>

definition clamp :: "int \<Rightarrow> int \<Rightarrow> int \<Rightarrow> int" where
  "clamp x lo hi = (if x < lo then lo else if hi < x then hi else x)"

definition spec_reusabilityScore :: "(string \<Rightarrow> string \<Rightarrow> bool) \<Rightarrow> string \<Rightarrow> nat \<Rightarrow> int" where
  "spec_reusabilityScore contains category count =
     clamp (70 - 15 * int count
              - (if contains category ''Battery'' then 30 else 0)
              + (if contains category ''Cable'' \<or> contains category ''Accessory'' then 20 else 0)
              + (if contains category ''Phone'' \<or> contains category ''Computer'' then 10 else 0))
           0 100"

text \<open>Case-sensitive containment: the word occurs in the category as it is.\<close>

definition contains_exact :: "string \<Rightarrow> string \<Rightarrow> bool" where
  "contains_exact category word = sublist word category"

text \<open>Case-insensitive containment, as the specification has it: the word occurs in the
  category once the letters A..Z of both are replaced by a..z.\<close>

definition toLowerChar :: "char \<Rightarrow> char" where
  "toLowerChar c =
     (case map_of (zip ''ABCDEFGHIJKLMNOPQRSTUVWXYZ'' ''abcdefghijklmnopqrstuvwxyz'') c of
        None \<Rightarrow> c
      | Some l \<Rightarrow> l)"

definition contains_nocase :: "string \<Rightarrow> string \<Rightarrow> bool" where
  "contains_nocase category word = sublist (map toLowerChar word) (map toLowerChar category)"

section \<open>Sequences of notification calls\<close>

text \<open>Two entries of the buffer are far apart when they differ in kind or message, or
  their timestamps are at least 5000 ms apart.\<close>

definition farApart :: "notification \<Rightarrow> notification \<Rightarrow> bool" where
  "farApart n m = (n_type n = n_type m \<and> n_message n = n_message m
                     \<longrightarrow> 5000 \<le> \<bar>n_timestamp n - n_timestamp m\<bar>)"

text \<open>No two entries of the buffer, at different positions, are close.\<close>

definition dedupOk :: "notification list \<Rightarrow> bool" where
  "dedupOk ns = sorted_wrt farApart ns"

text \<open>What a client of the notification context can call: one of the four \<open>show...\<close>
  functions, \<open>markAsRead\<close> or \<open>clearNotifications\<close>. In a run of calls every \<open>show...\<close>
  call is made from a render that has seen the buffer left by the calls before it.\<close>

datatype notifyCall =
    Notify ntype "string option" string int
  | MarkAsRead string
  | ClearNotifications

fun runCall :: "notifyCall \<Rightarrow> state \<Rightarrow> state" where
  "runCall (Notify ty title message now) st = notifyCurrent ty title message now st"
| "runCall (MarkAsRead ident) st = markAsRead ident st"
| "runCall ClearNotifications st = clearNotifications st"

fun runCalls :: "notifyCall list \<Rightarrow> state \<Rightarrow> state" where
  "runCalls [] st = st"
| "runCalls (c # cs) st = runCalls cs (runCall c st)"

section \<open>Example states\<close>

definition emptyState :: state where
  "emptyState = \<lparr> user = None, isLoading = False, token = None, registeredUsers = [],
                   notifications = [], toasts = [], classifications = [],
                   ls_classifications = (\<lambda>uid. []), reports = [], ls_reports = [] \<rparr>"

definition alice :: user where
  "alice = \<lparr> u_id = ''user-1'', u_name = ''Alice'', u_email = ''alice@example.org'',
             u_role = RoleUser, u_userType = General \<rparr>"

definition bob :: user where
  "bob = \<lparr> u_id = ''user-2'', u_name = ''Bob'', u_email = ''bob@example.org'',
           u_role = RoleUser, u_userType = General \<rparr>"

text \<open>A user whose \<open>role\<close> is \<open>'user'\<close> and whose \<open>userType\<close> is \<open>'admin'\<close>.\<close>

definition carol :: user where
  "carol = \<lparr> u_id = ''user-3'', u_name = ''Carol'', u_email = ''carol@example.org'',
             u_role = RoleUser, u_userType = AdminType \<rparr>"

definition adminUser :: user where
  "adminUser = \<lparr> u_id = ''user-0'', u_name = ''Root'', u_email = ''root@example.org'',
            u_role = RoleAdmin, u_userType = AdminType \<rparr>"

definition aliceReport :: report where
  "aliceReport = \<lparr> r_id = ''report-1000'', r_userId = ''user-1'', r_title = ''Weekly'',
                   r_type = Summary, r_content = ''{}'', r_createdAt = 1000, r_updatedAt = 1000,
                   r_size = ''1.2 MB'', r_status = Completed, r_downloadCount = 3,
                   r_isPublic = False, r_tags = [], r_fileUrl = None \<rparr>"

definition bobReport :: report where
  "bobReport = \<lparr> r_id = ''report-2000'', r_userId = ''user-2'', r_title = ''Notes'',
                 r_type = Summary, r_content = ''{}'', r_createdAt = 2000, r_updatedAt = 2000,
                 r_size = ''1.2 MB'', r_status = Completed, r_downloadCount = 0,
                 r_isPublic = False, r_tags = [], r_fileUrl = None \<rparr>"

definition batteryDraft :: classificationDraft where
  "batteryDraft = \<lparr> d_itemName = ''Smartphone Battery'', d_category = ''Mobile Device Battery'',
                    d_hazardousMaterials = [''Lithium'', ''Cobalt''], d_safetyLevel = High,
                    d_recommendations = [''Do not puncture or disassemble''],
                    d_confidence = 94.5, d_reusabilityScore = 25,
                    d_reusabilityLabel = NonReusable, d_imageUrl = [], d_location = None \<rparr>"

definition emptyTitleData :: reportData where
  "emptyTitleData = \<lparr> rd_title = [], rd_type = Summary, rd_content = ''{}'',
                      rd_size = ''1.2 MB'', rd_status = Completed, rd_isPublic = False,
                      rd_tags = [], rd_fileUrl = None \<rparr>"

text \<open>The state in which \<open>u\<close> is logged in and the store holds Alice's report.\<close>

definition sessionOf :: "user \<Rightarrow> state" where
  "sessionOf u = emptyState\<lparr> user := Some u, registeredUsers := [alice, bob, carol, adminUser],
                             reports := [aliceReport], ls_reports := [aliceReport] \<rparr>"

text \<open>Bob is logged in; the store holds his report and, after it, Alice's.\<close>

definition bobState :: state where
  "bobState = (sessionOf bob)\<lparr> reports := [bobReport, aliceReport],
                               ls_reports := [bobReport, aliceReport] \<rparr>"

text \<open>Eleven calls within 11 ms: "Saved" first, then ten other messages.\<close>

definition burstCalls :: "notifyCall list" where
  "burstCalls =
     [Notify NSuccess None ''Saved'' 0,
      Notify NInfo None ''a'' 1, Notify NInfo None ''b'' 2, Notify NInfo None ''c'' 3,
      Notify NInfo None ''d'' 4, Notify NInfo None ''e'' 5, Notify NInfo None ''f'' 6,
      Notify NInfo None ''g'' 7, Notify NInfo None ''h'' 8, Notify NInfo None ''i'' 9,
      Notify NInfo None ''j'' 10]"

text \<open>A decoder that knows one token: its payload carries Alice and expires at second
  86400.\<close>

definition exampleDecode :: "string \<Rightarrow> tokenPayload option" where
  "exampleDecode tok =
     (if tok = ''header.payload.signature''
      then Some \<lparr> p_user = alice, p_iat = 0, p_exp = 86400 \<rparr>
      else None)"

text \<open>A generator that always throws, and one that always completes.\<close>

definition failingExport :: "exportFormat \<Rightarrow> report \<Rightarrow> bool" where
  "failingExport format rep = False"

definition workingExport :: "exportFormat \<Rightarrow> report \<Rightarrow> bool" where
  "workingExport format rep = True"

text \<open>The buffer after one "Saved" at time 1000, and two "Saved" calls 6000 ms apart.\<close>

definition savedState :: state where
  "savedState = runCalls [Notify NSuccess None ''Saved'' 1000] emptyState"

definition twoSaved :: "notifyCall list" where
  "twoSaved = [Notify NSuccess None ''Saved'' 0, Notify NSuccess None ''Saved'' 6000]"

section \<open>The derived score\<close>

lemma includes_str_sublist: "includes_str s w = sublist w s"
  by (induction s) (simp_all add: sublist_Cons_right)

lemma clamp_max_min: "max 0 (min 100 x) = clamp x 0 100"
  by (simp add: clamp_def)

text \<open>
  Claim C1, as the code has it. For every item name, category and list of hazardous
  materials, \<open>calculateReusabilityScore\<close> is the specification's formula (70, minus 15 for
  each hazardous material, minus 30 for "Battery", plus 20 for "Cable" or "Accessory", plus
  10 for "Phone" or "Computer", all adjustments cumulative, clamped to 0..100) where a
  category contains a word when the word occurs in it \<^emph>\<open>with the same letter case\<close>. The
  label is Highly Reusable iff the score is at least 70, Moderate iff it is at least 40 and
  below 70, Non-reusable iff it is below 40. The category "Battery" with two hazardous
  materials has score 10 and label Non-reusable.
\<close>

theorem reusability_formula:
  "calculateReusabilityScore itemName category hazardousMaterials
     = spec_reusabilityScore contains_exact category (length hazardousMaterials)
   \<and> (getReusabilityLabel score = HighlyReusable \<longleftrightarrow> 70 \<le> score)
   \<and> (getReusabilityLabel score = Moderate \<longleftrightarrow> 40 \<le> score \<and> score < 70)
   \<and> (getReusabilityLabel score = NonReusable \<longleftrightarrow> score < 40)
   \<and> calculateReusabilityScore itemName ''Battery'' [h1, h2] = 10
   \<and> getReusabilityLabel 10 = NonReusable"
proof -
  have formula: "calculateReusabilityScore itemName category hazardousMaterials
     = spec_reusabilityScore contains_exact category (length hazardousMaterials)"
    by (simp add: calculateReusabilityScore_def spec_reusabilityScore_def contains_exact_def
        includes_str_sublist clamp_max_min Let_def mult.commute)
  have labels: "(getReusabilityLabel score = HighlyReusable \<longleftrightarrow> 70 \<le> score)
   \<and> (getReusabilityLabel score = Moderate \<longleftrightarrow> 40 \<le> score \<and> score < 70)
   \<and> (getReusabilityLabel score = NonReusable \<longleftrightarrow> score < 40)"
    by (simp add: getReusabilityLabel_def)
  have battery: "calculateReusabilityScore itemName ''Battery'' [h1, h2] = 10"
    by (simp add: calculateReusabilityScore_def Let_def)
  have "getReusabilityLabel 10 = NonReusable"
    by (simp add: getReusabilityLabel_def)
  with formula labels battery show ?thesis by blast
qed

text \<open>The formula at the category "Electronic Accessory" with no hazardous material:
  score 90, Highly Reusable.\<close>

theorem reusability_formula_witness:
  "calculateReusabilityScore ''USB Cable'' ''Electronic Accessory'' []
     = spec_reusabilityScore contains_exact ''Electronic Accessory'' 0
   \<and> calculateReusabilityScore ''USB Cable'' ''Electronic Accessory'' [] = 90
   \<and> getReusabilityLabel 90 = HighlyReusable"
  using reusability_formula [of "''USB Cable''" "''Electronic Accessory''" "[]" 90]
  by (simp add: calculateReusabilityScore_def Let_def)

text \<open>Claim C1 as stated, with case-insensitive containment, fails: the category
  "Laptop battery" holds "battery" but not "Battery". The code leaves the score at 70
  (Highly Reusable); the case-insensitive formula gives 40 (Moderate).\<close>

theorem case_insensitive_counterexample:
  "calculateReusabilityScore ''Spare'' ''Laptop battery'' [] = 70
   \<and> spec_reusabilityScore contains_nocase ''Laptop battery'' 0 = 40
   \<and> getReusabilityLabel 70 = HighlyReusable \<and> getReusabilityLabel 40 = Moderate"
  by (simp add: calculateReusabilityScore_def Let_def spec_reusabilityScore_def
      contains_nocase_def toLowerChar_def clamp_def getReusabilityLabel_def sublist_Cons_right)

text \<open>
  Claim C8. Two drafts with the same category and the same number of hazardous materials
  get the same \<open>reusabilityScore\<close> in the record the store builds, whatever their item
  names, confidences, hazardous-material strings, creators and times of creation.
\<close>

theorem score_depends_on_category_and_count:
  assumes "d_category d1 = d_category d2"
    and "length (d_hazardousMaterials d1) = length (d_hazardousMaterials d2)"
  shows "c_reusabilityScore (newClassification now1 u1 d1)
           = c_reusabilityScore (newClassification now2 u2 d2)"
  using assms by (simp add: newClassification_def calculateReusabilityScore_def Let_def)

theorem score_depends_on_category_and_count_witness:
  "d_category batteryDraft
     = d_category (batteryDraft\<lparr> d_itemName := ''Power bank'',
                                 d_hazardousMaterials := [''Lead'', ''Mercury''],
                                 d_confidence := 10 \<rparr>)
   \<and> length (d_hazardousMaterials batteryDraft)
     = length (d_hazardousMaterials (batteryDraft\<lparr> d_itemName := ''Power bank'',
                                 d_hazardousMaterials := [''Lead'', ''Mercury''],
                                 d_confidence := 10 \<rparr>))
   \<and> c_reusabilityScore (newClassification 5 alice batteryDraft)
     = c_reusabilityScore (newClassification 9 bob
         (batteryDraft\<lparr> d_itemName := ''Power bank'',
                         d_hazardousMaterials := [''Lead'', ''Mercury''],
                         d_confidence := 10 \<rparr>))"
  using score_depends_on_category_and_count [of batteryDraft
      "batteryDraft\<lparr> d_itemName := ''Power bank'',
                      d_hazardousMaterials := [''Lead'', ''Mercury''],
                      d_confidence := 10 \<rparr>" 5 alice 9 bob]
  by (simp add: batteryDraft_def)

section \<open>Facts shared by the stores\<close>

text \<open>The four \<open>show...\<close> functions touch only the notifications and the toasts.\<close>

lemma show_fields [simp]:
  "user (showSuccess rd m t now st) = user st"
  "classifications (showSuccess rd m t now st) = classifications st"
  "ls_classifications (showSuccess rd m t now st) = ls_classifications st"
  "reports (showSuccess rd m t now st) = reports st"
  "ls_reports (showSuccess rd m t now st) = ls_reports st"
  "registeredUsers (showSuccess rd m t now st) = registeredUsers st"
  "user (showError rd m t now st) = user st"
  "classifications (showError rd m t now st) = classifications st"
  "ls_classifications (showError rd m t now st) = ls_classifications st"
  "reports (showError rd m t now st) = reports st"
  "ls_reports (showError rd m t now st) = ls_reports st"
  "registeredUsers (showError rd m t now st) = registeredUsers st"
  "user (showInfo rd m t now st) = user st"
  "classifications (showInfo rd m t now st) = classifications st"
  "ls_classifications (showInfo rd m t now st) = ls_classifications st"
  "reports (showInfo rd m t now st) = reports st"
  "ls_reports (showInfo rd m t now st) = ls_reports st"
  "registeredUsers (showInfo rd m t now st) = registeredUsers st"
  by (simp_all add: showSuccess_def showError_def showInfo_def addNotification_def)

lemma isAdmin_show [simp]:
  "isAdmin (showSuccess rd m t now st) = isAdmin st"
  "isAdmin (showError rd m t now st) = isAdmin st"
  "isAdmin (showInfo rd m t now st) = isAdmin st"
  by (simp_all add: isAdmin_def)

lemma sessionOf_simps:
  "user (sessionOf u) = Some u"
  "reports (sessionOf u) = [aliceReport]"
  "ls_reports (sessionOf u) = [aliceReport]"
  "classifications (sessionOf u) = []"
  "ls_classifications (sessionOf u) = (\<lambda>uid. [])"
  "registeredUsers (sessionOf u) = [alice, bob, carol, adminUser]"
  "notifications (sessionOf u) = []"
  by (simp_all add: sessionOf_def emptyState_def)

lemma find_map_replace:
  "P u \<Longrightarrow> find P (map (\<lambda>r. if P r then u else r) xs)
             = (case find P xs of None \<Rightarrow> None | Some r \<Rightarrow> Some u)"
  by (induction xs) simp_all

lemma find_Some_holds: "find P xs = Some x \<Longrightarrow> P x"
  by (induction xs) (auto split: if_splits)

section \<open>Creating a classification\<close>

lemma newClassification_ignores_supplied:
  "newClassification now u (d\<lparr> d_reusabilityScore := s, d_reusabilityLabel := l \<rparr>)
     = newClassification now u d"
  by (simp add: newClassification_def)

text \<open>
  Claim C2. Whatever score \<open>s\<close> and label \<open>l\<close> the caller puts into the draft,
  \<open>addClassification\<close> ends in the same state as without them. When a user is logged in,
  the record put in front of the store and of the user's \<open>localStorage\<close> key carries the
  score \<open>calculateReusabilityScore\<close> computes from the draft's item name, category and
  hazardous materials, and the label \<open>getReusabilityLabel\<close> gives that score.
\<close>

theorem create_recomputes_score:
  assumes "user st = Some u"
  shows "addClassification now (d\<lparr> d_reusabilityScore := s, d_reusabilityLabel := l \<rparr>) st
           = addClassification now d st
       \<and> fst (addClassification now d st) = Done
       \<and> classifications (snd (addClassification now d st))
           = newClassification now u d # classifications st
       \<and> ls_classifications (snd (addClassification now d st)) (u_id u)
           = newClassification now u d # classifications st
       \<and> c_reusabilityScore (newClassification now u d)
           = calculateReusabilityScore (d_itemName d) (d_category d) (d_hazardousMaterials d)
       \<and> c_reusabilityLabel (newClassification now u d)
           = getReusabilityLabel
               (calculateReusabilityScore (d_itemName d) (d_category d) (d_hazardousMaterials d))"
proof -
  have same: "addClassification now (d\<lparr> d_reusabilityScore := s, d_reusabilityLabel := l \<rparr>) st
           = addClassification now d st"
    by (cases "user st") (simp_all add: addClassification_def newClassification_ignores_supplied)
  have ok: "fst (addClassification now d st) = Done"
    using assms by (simp add: addClassification_def Let_def)
  have mem: "classifications (snd (addClassification now d st))
           = newClassification now u d # classifications st"
    using assms by (simp add: addClassification_def Let_def)
  have stored: "ls_classifications (snd (addClassification now d st)) (u_id u)
           = newClassification now u d # classifications st"
    using assms by (simp add: addClassification_def Let_def)
  have score: "c_reusabilityScore (newClassification now u d)
           = calculateReusabilityScore (d_itemName d) (d_category d) (d_hazardousMaterials d)"
    by (simp add: newClassification_def Let_def)
  have label: "c_reusabilityLabel (newClassification now u d)
           = getReusabilityLabel
               (calculateReusabilityScore (d_itemName d) (d_category d) (d_hazardousMaterials d))"
    by (simp add: newClassification_def Let_def)
  from same ok mem stored score label show ?thesis by blast
qed

text \<open>The page's mock result "Smartphone Battery" comes with the literal score 25; the
  stored record has the computed score 10.\<close>

theorem create_recomputes_score_witness:
  "user (sessionOf alice) = Some alice
   \<and> d_reusabilityScore batteryDraft = 25
   \<and> classifications (snd (addClassification 2000 batteryDraft (sessionOf alice)))
       = [newClassification 2000 alice batteryDraft]
   \<and> c_reusabilityScore (newClassification 2000 alice batteryDraft) = 10
   \<and> c_reusabilityLabel (newClassification 2000 alice batteryDraft) = NonReusable"
proof -
  have u: "user (sessionOf alice) = Some alice"
    by (simp add: sessionOf_def)
  have empty: "classifications (sessionOf alice) = []"
    by (simp add: sessionOf_def emptyState_def)
  have score: "calculateReusabilityScore (d_itemName batteryDraft) (d_category batteryDraft)
     (d_hazardousMaterials batteryDraft) = 10"
    by (simp add: batteryDraft_def calculateReusabilityScore_def Let_def)
  have "d_reusabilityScore batteryDraft = 25"
    by (simp add: batteryDraft_def)
  with create_recomputes_score [OF u, where now = 2000 and d = batteryDraft and s = 25
      and l = NonReusable] empty score
  show ?thesis using u by (simp add: getReusabilityLabel_def)
qed

section \<open>Permissions on reports\<close>

lemma find_the_only:
  "x \<in> set xs \<Longrightarrow> \<forall>y \<in> set xs. f y = f x \<longrightarrow> y = x
     \<Longrightarrow> find (\<lambda>y. f y = f x) xs = Some x"
  by (induction xs) auto

lemma denied_when_found:
  assumes "\<not> isAdmin st"
    and "find (\<lambda>r. r_id r = ident) (reports st) = Some rep"
    and "notOwner rep st"
  shows "updateReport now ident updates st
           = (PermissionDenied,
              showError (notifications st) ''You can only edit your own reports'' None now st)"
    and "deleteReport now ident st
           = (PermissionDenied,
              showError (notifications st) ''You can only delete your own reports'' None now st)"
  using assms by (simp_all add: updateReport_def updateReportFrom_def deleteReport_def)

text \<open>
  Claim C3, as the code has it by design. Let the actor be one the store does not treat
  as an administrator: nobody is logged in, or the user's \<open>role\<close> is not \<open>'admin'\<close> \<^emph>\<open>and\<close>
  the user's \<open>userType\<close> is not \<open>'admin'\<close>. Let \<open>rep\<close> be a report of the store that is owned
  by somebody else and whose id no other report of the store carries. Then \<open>updateReport\<close>
  and \<open>deleteReport\<close> on its id end with \<open>PermissionDenied\<close>, hand the message "You can only
  edit your own reports" (or "... delete ...") to \<open>showError\<close> and do nothing else: the
  reports in the store and in \<open>localStorage\<close> are what they were. Nothing is said about a
  report that shares its id with another one.
\<close>

theorem foreign_report_protected:
  assumes "\<not> isAdmin st"
    and "rep \<in> set (reports st)"
    and "\<forall>r \<in> set (reports st). r_id r = r_id rep \<longrightarrow> r = rep"
    and "notOwner rep st"
  shows "updateReport now (r_id rep) updates st
           = (PermissionDenied,
              showError (notifications st) ''You can only edit your own reports'' None now st)
       \<and> reports (snd (updateReport now (r_id rep) updates st)) = reports st
       \<and> ls_reports (snd (updateReport now (r_id rep) updates st)) = ls_reports st
       \<and> deleteReport now (r_id rep) st
           = (PermissionDenied,
              showError (notifications st) ''You can only delete your own reports'' None now st)
       \<and> reports (snd (deleteReport now (r_id rep) st)) = reports st
       \<and> ls_reports (snd (deleteReport now (r_id rep) st)) = ls_reports st"
proof -
  have found: "find (\<lambda>r. r_id r = r_id rep) (reports st) = Some rep"
    using assms(2,3) by (rule find_the_only)
  have upd: "updateReport now (r_id rep) updates st
           = (PermissionDenied,
              showError (notifications st) ''You can only edit your own reports'' None now st)"
    using assms(1) found assms(4) by (rule denied_when_found(1))
  have del: "deleteReport now (r_id rep) st
           = (PermissionDenied,
              showError (notifications st) ''You can only delete your own reports'' None now st)"
    using assms(1) found assms(4) by (rule denied_when_found(2))
  show ?thesis
    by (simp add: upd del)
qed

text \<open>Bob, a plain member, on Alice's report, the only report of the store.\<close>

theorem foreign_report_protected_witness:
  "\<not> isAdmin (sessionOf bob)
   \<and> aliceReport \<in> set (reports (sessionOf bob))
   \<and> reports (sessionOf bob) = [aliceReport]
   \<and> notOwner aliceReport (sessionOf bob)
   \<and> fst (updateReport 2000 ''report-1000'' (noUpdates\<lparr> up_title := Some ''Mine'' \<rparr>)
             (sessionOf bob)) = PermissionDenied
   \<and> reports (snd (updateReport 2000 ''report-1000'' (noUpdates\<lparr> up_title := Some ''Mine'' \<rparr>)
             (sessionOf bob))) = [aliceReport]
   \<and> toasts (snd (updateReport 2000 ''report-1000'' (noUpdates\<lparr> up_title := Some ''Mine'' \<rparr>)
             (sessionOf bob))) = [(NError, ''You can only edit your own reports'')]
   \<and> fst (deleteReport 2000 ''report-1000'' (sessionOf bob)) = PermissionDenied
   \<and> reports (snd (deleteReport 2000 ''report-1000'' (sessionOf bob))) = [aliceReport]
   \<and> toasts (snd (deleteReport 2000 ''report-1000'' (sessionOf bob)))
       = [(NError, ''You can only delete your own reports'')]"
proof -
  have a: "\<not> isAdmin (sessionOf bob)"
    by (simp add: isAdmin_def sessionOf_simps bob_def)
  have m: "aliceReport \<in> set (reports (sessionOf bob))"
    by (simp add: sessionOf_simps)
  have only: "\<forall>r \<in> set (reports (sessionOf bob)). r_id r = r_id aliceReport \<longrightarrow> r = aliceReport"
    by (simp add: sessionOf_simps)
  have n: "notOwner aliceReport (sessionOf bob)"
    by (simp add: notOwner_def sessionOf_simps aliceReport_def bob_def)
  have i: "r_id aliceReport = ''report-1000''"
    by (simp add: aliceReport_def)
  have t: "toasts (sessionOf bob) = []"
    by (simp add: sessionOf_def emptyState_def)
  from foreign_report_protected [OF a m only n, of 2000 "noUpdates\<lparr> up_title := Some ''Mine'' \<rparr>"]
    a m n
  show ?thesis
    by (simp add: i t sessionOf_simps showError_def isDuplicate_def addNotification_def)
qed

text \<open>
  Claim C3 as stated fails in two places.
  \<^item> By design: Carol's \<open>role\<close> is \<open>'user'\<close> and her \<open>userType\<close> is \<open>'admin'\<close>; the store treats
    her as an administrator and she edits and deletes Alice's report.
  \<^item> By a defect of the ownership check: it looks at the first report with the id, while
    the update and the removal reach every report with that id, and an update may change
    the id. Bob, a plain member, gives his own report the id of Alice's report and then
    deletes under that id: both calls end with \<open>Done\<close> and Alice's report is gone.
\<close>

theorem role_field_counterexample:
  "user (sessionOf carol) = Some carol
   \<and> u_role carol \<noteq> RoleAdmin
   \<and> r_userId aliceReport \<noteq> u_id carol
   \<and> reports (sessionOf carol) = [aliceReport]
   \<and> fst (updateReport 2000 ''report-1000'' (noUpdates\<lparr> up_title := Some ''Mine'' \<rparr>)
             (sessionOf carol)) = Done
   \<and> reports (snd (updateReport 2000 ''report-1000'' (noUpdates\<lparr> up_title := Some ''Mine'' \<rparr>)
             (sessionOf carol))) = [aliceReport\<lparr> r_title := ''Mine'', r_updatedAt := 2000 \<rparr>]
   \<and> fst (deleteReport 2000 ''report-1000'' (sessionOf carol)) = Done
   \<and> reports (snd (deleteReport 2000 ''report-1000'' (sessionOf carol))) = []
   \<and> user bobState = Some bob
   \<and> u_role bob \<noteq> RoleAdmin \<and> u_userType bob \<noteq> AdminType
   \<and> r_userId aliceReport \<noteq> u_id bob
   \<and> reports bobState = [bobReport, aliceReport]
   \<and> fst (updateReport 2500 ''report-2000'' (noUpdates\<lparr> up_id := Some ''report-1000'' \<rparr>)
             bobState) = Done
   \<and> fst (deleteReport 3000 ''report-1000''
             (snd (updateReport 2500 ''report-2000'' (noUpdates\<lparr> up_id := Some ''report-1000'' \<rparr>)
                     bobState))) = Done
   \<and> reports (snd (deleteReport 3000 ''report-1000''
             (snd (updateReport 2500 ''report-2000'' (noUpdates\<lparr> up_id := Some ''report-1000'' \<rparr>)
                     bobState)))) = []
   \<and> ls_reports (snd (deleteReport 3000 ''report-1000''
             (snd (updateReport 2500 ''report-2000'' (noUpdates\<lparr> up_id := Some ''report-1000'' \<rparr>)
                     bobState)))) = []"
proof -
  have carol_part: "user (sessionOf carol) = Some carol
   \<and> u_role carol \<noteq> RoleAdmin
   \<and> r_userId aliceReport \<noteq> u_id carol
   \<and> reports (sessionOf carol) = [aliceReport]
   \<and> fst (updateReport 2000 ''report-1000'' (noUpdates\<lparr> up_title := Some ''Mine'' \<rparr>)
             (sessionOf carol)) = Done
   \<and> reports (snd (updateReport 2000 ''report-1000'' (noUpdates\<lparr> up_title := Some ''Mine'' \<rparr>)
             (sessionOf carol))) = [aliceReport\<lparr> r_title := ''Mine'', r_updatedAt := 2000 \<rparr>]
   \<and> fst (deleteReport 2000 ''report-1000'' (sessionOf carol)) = Done
   \<and> reports (snd (deleteReport 2000 ''report-1000'' (sessionOf carol))) = []"
    by (simp add: updateReport_def updateReportFrom_def deleteReport_def isAdmin_def
        sessionOf_simps carol_def aliceReport_def applyUpdates_def noUpdates_def Let_def)
  have b: "user bobState = Some bob" "reports bobState = [bobReport, aliceReport]"
    "ls_reports bobState = [bobReport, aliceReport]"
    by (simp_all add: bobState_def sessionOf_simps)
  have nb: "\<not> isAdmin bobState"
    by (simp add: isAdmin_def b bob_def)
  let ?st1 = "snd (updateReport 2500 ''report-2000'' (noUpdates\<lparr> up_id := Some ''report-1000'' \<rparr>)
                     bobState)"
  have u1: "fst (updateReport 2500 ''report-2000'' (noUpdates\<lparr> up_id := Some ''report-1000'' \<rparr>)
             bobState) = Done"
    by (simp add: updateReport_def updateReportFrom_def b nb notOwner_def bobReport_def bob_def
        Let_def)
  have r1: "reports ?st1 = [bobReport\<lparr> r_id := ''report-1000'', r_updatedAt := 2500 \<rparr>, aliceReport]"
    by (simp add: updateReport_def updateReportFrom_def b nb notOwner_def bobReport_def bob_def
        aliceReport_def applyUpdates_def noUpdates_def Let_def)
  have l1: "ls_reports ?st1
      = [bobReport\<lparr> r_id := ''report-1000'', r_updatedAt := 2500 \<rparr>, aliceReport]"
    by (simp add: updateReport_def updateReportFrom_def b nb notOwner_def bobReport_def bob_def
        aliceReport_def applyUpdates_def noUpdates_def Let_def)
  have us1: "user ?st1 = Some bob"
    by (simp add: updateReport_def updateReportFrom_def b nb notOwner_def bobReport_def bob_def
        Let_def)
  have n1: "\<not> isAdmin ?st1"
    unfolding isAdmin_def us1 by (simp add: bob_def)
  have d: "fst (deleteReport 3000 ''report-1000'' ?st1) = Done
      \<and> reports (snd (deleteReport 3000 ''report-1000'' ?st1)) = []
      \<and> ls_reports (snd (deleteReport 3000 ''report-1000'' ?st1)) = []"
    by (simp add: deleteReport_def r1 l1 n1 notOwner_def us1 bobReport_def bob_def
        aliceReport_def Let_def)
  have plain: "u_role bob \<noteq> RoleAdmin \<and> u_userType bob \<noteq> AdminType
      \<and> r_userId aliceReport \<noteq> u_id bob"
    by (simp add: bob_def aliceReport_def)
  from carol_part b(1,2) plain u1 d show ?thesis by blast
qed

section \<open>The two accessors\<close>

text \<open>
  Claim C10, as the code has it. For every actor the store does not treat as an
  administrator (nobody logged in, or neither \<open>role\<close> nor \<open>userType\<close> is \<open>'admin'\<close>),
  \<open>getAllReports\<close> returns what \<open>getUserReports\<close> returns and \<open>getAllClassifications\<close> what
  \<open>getUserClassifications\<close> returns.
\<close>

theorem all_accessor_is_own_accessor:
  assumes "\<not> isAdmin st"
  shows "getAllReports st = getUserReports st
       \<and> getAllClassifications st = getUserClassifications st"
  using assms by (simp add: getAllReports_def getAllClassifications_def)

theorem all_accessor_is_own_accessor_witness:
  "\<not> isAdmin (sessionOf bob)
   \<and> getAllReports (sessionOf bob) = getUserReports (sessionOf bob)
   \<and> getAllClassifications (sessionOf bob) = getUserClassifications (sessionOf bob)
   \<and> getAllReports (sessionOf bob) = []"
proof -
  have a: "\<not> isAdmin (sessionOf bob)"
    by (simp add: isAdmin_def sessionOf_simps bob_def)
  have "getUserReports (sessionOf bob) = []"
    by (simp add: getUserReports_def sessionOf_simps bob_def aliceReport_def)
  with all_accessor_is_own_accessor [OF a] a show ?thesis by simp
qed

text \<open>Claim C10 as stated, for every actor whose \<open>role\<close> is not admin, fails for Carol
  (\<open>role\<close> \<open>'user'\<close>, \<open>userType\<close> \<open>'admin'\<close>): \<open>getAllReports\<close> shows her Alice's report,
  \<open>getUserReports\<close> shows her nothing.\<close>

theorem all_accessor_role_counterexample:
  "user (sessionOf carol) = Some carol
   \<and> u_role carol \<noteq> RoleAdmin
   \<and> getAllReports (sessionOf carol) = [aliceReport]
   \<and> getUserReports (sessionOf carol) = []"
  by (simp add: getAllReports_def getUserReports_def isAdmin_def sessionOf_simps carol_def
      aliceReport_def)

section \<open>Creating a report\<close>

text \<open>
  Claim C5, as the code has it. \<open>createReport\<close> does not look at the title. With nobody
  logged in it ends with \<open>NotLoggedIn\<close> and the reports in the store and in \<open>localStorage\<close>
  are unchanged. For every logged-in user and every report data, also with an empty title,
  it ends with \<open>Done\<close> and puts one new report, with that title and owned by the user, in
  front of the store and of the \<open>localStorage\<close> list: both grow by exactly one.
\<close>

theorem create_report_does_not_validate:
  "(user st = None \<longrightarrow>
      fst (createReport now rd st) = NotLoggedIn
      \<and> reports (snd (createReport now rd st)) = reports st
      \<and> ls_reports (snd (createReport now rd st)) = ls_reports st)
   \<and> (user st = Some u \<longrightarrow>
      fst (createReport now rd st) = Done
      \<and> length (reports (snd (createReport now rd st))) = length (reports st) + 1
      \<and> length (ls_reports (snd (createReport now rd st))) = length (ls_reports st) + 1
      \<and> r_title (hd (reports (snd (createReport now rd st)))) = rd_title rd
      \<and> r_userId (hd (reports (snd (createReport now rd st)))) = u_id u
      \<and> tl (reports (snd (createReport now rd st))) = reports st)"
  by (simp add: createReport_def Let_def)

theorem create_report_does_not_validate_witness:
  "user (sessionOf alice) = Some alice
   \<and> rd_title emptyTitleData = []
   \<and> fst (createReport 2000 emptyTitleData (sessionOf alice)) = Done
   \<and> length (reports (snd (createReport 2000 emptyTitleData (sessionOf alice)))) = 2
   \<and> r_title (hd (reports (snd (createReport 2000 emptyTitleData (sessionOf alice))))) = []
   \<and> user emptyState = None
   \<and> fst (createReport 2000 emptyTitleData emptyState) = NotLoggedIn
   \<and> reports (snd (createReport 2000 emptyTitleData emptyState)) = []"
  using create_report_does_not_validate [of "sessionOf alice" 2000 emptyTitleData alice]
    create_report_does_not_validate [of emptyState 2000 emptyTitleData alice]
  by (simp add: sessionOf_simps emptyTitleData_def emptyState_def)

text \<open>Claim C5 as stated fails: Alice, logged in, creates a report with the empty title;
  the call ends with \<open>Done\<close> and the store goes from one report to two.\<close>

theorem empty_title_counterexample:
  "user (sessionOf alice) = Some alice
   \<and> rd_title emptyTitleData = []
   \<and> fst (createReport 2000 emptyTitleData (sessionOf alice)) = Done
   \<and> length (reports (sessionOf alice)) = 1
   \<and> length (reports (snd (createReport 2000 emptyTitleData (sessionOf alice)))) = 2
   \<and> length (ls_reports (snd (createReport 2000 emptyTitleData (sessionOf alice)))) = 2"
  by (simp add: createReport_def Let_def sessionOf_simps emptyTitleData_def)

section \<open>Expired session claims\<close>

text \<open>
  Claim C9. When the stored token decodes to a payload whose \<open>exp\<close> (seconds) is not after
  the time of the check, \<open>initializeAuth\<close> removes the token from \<open>localStorage\<close>, shows the
  error toast "Session expired. Please login again.", leaves \<open>user\<close> as it was (\<open>null\<close> when
  the provider starts) and does nothing else but end the loading: the payload's user is
  not taken up, and with no token and no user the holder has to log in again.
\<close>

theorem expired_claim_rejected:
  assumes "token st = Some tok"
    and "jwtDecode tok = Some decoded"
    and "p_exp decoded * 1000 \<le> now"
  shows "initializeAuth jwtDecode now st
           = st\<lparr> token := None,
                 toasts := toasts st @ [(NError, ''Session expired. Please login again.'')],
                 isLoading := False \<rparr>
       \<and> user (initializeAuth jwtDecode now st) = user st
       \<and> token (initializeAuth jwtDecode now st) = None"
  using assms by (simp add: initializeAuth_def)

theorem expired_claim_rejected_witness:
  "token (emptyState\<lparr> token := Some ''header.payload.signature'' \<rparr>)
     = Some ''header.payload.signature''
   \<and> exampleDecode ''header.payload.signature''
     = Some \<lparr> p_user = alice, p_iat = 0, p_exp = 86400 \<rparr>
   \<and> p_exp \<lparr> p_user = alice, p_iat = 0, p_exp = 86400 \<rparr> * 1000 \<le> 86400001
   \<and> user (initializeAuth exampleDecode 86400001
              (emptyState\<lparr> token := Some ''header.payload.signature'' \<rparr>)) = None
   \<and> token (initializeAuth exampleDecode 86400001
              (emptyState\<lparr> token := Some ''header.payload.signature'' \<rparr>)) = None
   \<and> toasts (initializeAuth exampleDecode 86400001
              (emptyState\<lparr> token := Some ''header.payload.signature'' \<rparr>))
       = [(NError, ''Session expired. Please login again.'')]"
proof -
  have t: "token (emptyState\<lparr> token := Some ''header.payload.signature'' \<rparr>)
     = Some ''header.payload.signature''"
    by simp
  have d: "exampleDecode ''header.payload.signature''
     = Some \<lparr> p_user = alice, p_iat = 0, p_exp = 86400 \<rparr>"
    by (simp add: exampleDecode_def)
  have e: "p_exp \<lparr> p_user = alice, p_iat = 0, p_exp = 86400 \<rparr> * 1000 \<le> 86400001"
    by simp
  from expired_claim_rejected [where jwtDecode = exampleDecode, OF t d e] d show ?thesis
    by (simp add: emptyState_def)
qed

section \<open>Downloads\<close>

text \<open>
  Claim C7. Let \<open>rep\<close> be the report the store finds under the identifier. When the
  generator of the chosen format throws, \<open>downloadReport\<close> leaves the reports in the store
  and in \<open>localStorage\<close> as they were. In every case the report found under the identifier
  afterwards has the download count of \<open>rep\<close>, or that count plus one; it has the count plus
  one exactly when the generator completed and the actor may edit the report (an
  administrator or the owner).
\<close>

theorem download_count:
  assumes "find (\<lambda>r. r_id r = ident) (reports st) = Some rep"
  shows "(\<not> generate format rep \<longrightarrow>
            reports (snd (downloadReport generate now later ident format st)) = reports st
          \<and> ls_reports (snd (downloadReport generate now later ident format st)) = ls_reports st)
       \<and> map_option r_downloadCount
           (find (\<lambda>r. r_id r = ident)
              (reports (snd (downloadReport generate now later ident format st))))
         = Some (if generate format rep \<and> (isAdmin st \<or> \<not> notOwner rep st)
                 then r_downloadCount rep + 1 else r_downloadCount rep)"
proof -
  have idr: "r_id rep = ident"
    using find_Some_holds [OF assms] .
  let ?upd = "(applyUpdates rep (noUpdates\<lparr> up_downloadCount := Some (r_downloadCount rep + 1) \<rparr>))
                \<lparr> r_updatedAt := later \<rparr>"
  have idu: "r_id ?upd = ident"
    using idr by (simp add: applyUpdates_def noUpdates_def)
  have cnt: "r_downloadCount ?upd = r_downloadCount rep + 1"
    by (simp add: applyUpdates_def noUpdates_def)
  have fm: "find (\<lambda>r. r_id r = ident) (map (\<lambda>r. if r_id r = ident then ?upd else r) (reports st))
              = Some ?upd"
    using find_map_replace [of "\<lambda>r. r_id r = ident" ?upd "reports st"] idu assms by simp
  have owner_kept: "notOwner rep (showInfo rd m t now st) = notOwner rep st" for rd m t
    by (simp add: notOwner_def)
  show ?thesis
    using assms fm cnt
    by (simp add: downloadReport_def updateReportFrom_def Let_def owner_kept)
qed

text \<open>Alice downloads her report, whose count is 3: with a generator that throws the
  count stays 3, with one that completes it becomes 4.\<close>

theorem download_count_witness:
  "find (\<lambda>r. r_id r = ''report-1000'') (reports (sessionOf alice)) = Some aliceReport
   \<and> \<not> failingExport Pdf aliceReport
   \<and> reports (snd (downloadReport failingExport 2000 4000 ''report-1000'' Pdf (sessionOf alice)))
       = [aliceReport]
   \<and> map_option r_downloadCount
        (find (\<lambda>r. r_id r = ''report-1000'')
           (reports (snd (downloadReport failingExport 2000 4000 ''report-1000'' Pdf
                            (sessionOf alice))))) = Some 3
   \<and> map_option r_downloadCount
        (find (\<lambda>r. r_id r = ''report-1000'')
           (reports (snd (downloadReport workingExport 2000 4000 ''report-1000'' Pdf
                            (sessionOf alice))))) = Some 4"
proof -
  have f: "find (\<lambda>r. r_id r = ''report-1000'') (reports (sessionOf alice)) = Some aliceReport"
    by (simp add: sessionOf_simps aliceReport_def)
  have own: "\<not> notOwner aliceReport (sessionOf alice)"
    by (simp add: notOwner_def sessionOf_simps aliceReport_def alice_def)
  have c: "r_downloadCount aliceReport = 3"
    by (simp add: aliceReport_def)
  from download_count [OF f, of failingExport Pdf 2000 4000]
    download_count [OF f, of workingExport Pdf 2000 4000] f own c
  show ?thesis
    by (simp add: failingExport_def workingExport_def sessionOf_simps)
qed

section \<open>Notifications\<close>

lemma isDuplicate_iff:
  "isDuplicate now ty message ns
     = (\<exists>n \<in> set ns. n_message n = message \<and> n_type n = ty \<and> now - n_timestamp n < 5000)"
  by (simp add: isDuplicate_def list_ex_iff)

lemma notify_eq:
  "notify rendered ty title message now st
     = (if isDuplicate now ty message rendered then st
        else addNotification now ty
               (case title of
                  None \<Rightarrow> (case ty of NSuccess \<Rightarrow> ''Success'' | NError \<Rightarrow> ''Error''
                            | NInfo \<Rightarrow> ''Information'' | NWarning \<Rightarrow> ''Warning'')
                | Some t \<Rightarrow> t)
               message st)"
  by (cases ty; cases title)
     (simp_all add: showSuccess_def showError_def showInfo_def showWarning_def)

lemma isDuplicate_after_add:
  "t2 - t1 < 5000
     \<Longrightarrow> isDuplicate t2 ty message (notifications (addNotification t1 ty title message st))"
  by (simp add: isDuplicate_def addNotification_def)

lemma dedupOk_add:
  assumes "dedupOk (notifications st)" and "\<not> isDuplicate now ty message (notifications st)"
  shows "dedupOk (notifications (addNotification now ty title message st))"
proof -
  have far: "farApart \<lparr> n_id = toString now, n_type = ty, n_title = title,
                         n_message = message, n_timestamp = now, n_read = False \<rparr> m"
    if "m \<in> set (take 9 (notifications st))" for m
  proof -
    from that have "m \<in> set (notifications st)" by (rule in_set_takeD)
    with assms(2) have "\<not> (n_message m = message \<and> n_type m = ty \<and> now - n_timestamp m < 5000)"
      by (auto simp: isDuplicate_iff)
    then show ?thesis by (auto simp: farApart_def)
  qed
  have "sorted_wrt farApart (take 9 (notifications st))"
    using assms(1) by (simp add: dedupOk_def sorted_wrt_take)
  with far show ?thesis
    by (simp add: dedupOk_def addNotification_def)
qed

lemma dedupOk_notifyCurrent:
  "dedupOk (notifications st)
     \<Longrightarrow> dedupOk (notifications (notifyCurrent ty title message now st))"
  by (simp add: notifyCurrent_def notify_eq dedupOk_add)

lemma dedupOk_markAsRead:
  "dedupOk (notifications st) \<Longrightarrow> dedupOk (notifications (markAsRead ident st))"
proof -
  have same: "farApart (if n_id x = ident then x\<lparr> n_read := True \<rparr> else x)
                       (if n_id y = ident then y\<lparr> n_read := True \<rparr> else y)
                = farApart x y" for x y
    by (simp add: farApart_def)
  assume "dedupOk (notifications st)"
  then show ?thesis
    by (simp add: dedupOk_def markAsRead_def sorted_wrt_map same)
qed

lemma dedupOk_runCall:
  "dedupOk (notifications st) \<Longrightarrow> dedupOk (notifications (runCall c st))"
proof (cases c)
  case (Notify ty title message now)
  assume "dedupOk (notifications st)"
  then show ?thesis by (simp add: Notify dedupOk_notifyCurrent)
next
  case (MarkAsRead ident)
  assume "dedupOk (notifications st)"
  then show ?thesis by (simp add: MarkAsRead dedupOk_markAsRead)
next
  case ClearNotifications
  then show ?thesis by (simp add: clearNotifications_def dedupOk_def)
qed

lemma dedupOk_runCalls:
  "dedupOk (notifications st) \<Longrightarrow> dedupOk (notifications (runCalls cs st))"
  by (induction cs arbitrary: st) (simp_all add: dedupOk_runCall)

lemma dedupOk_iff:
  "dedupOk ns = (\<forall>i j. i < j \<and> j < length ns \<and> n_type (ns ! i) = n_type (ns ! j)
                        \<and> n_message (ns ! i) = n_message (ns ! j)
                   \<longrightarrow> 5000 \<le> \<bar>n_timestamp (ns ! i) - n_timestamp (ns ! j)\<bar>)"
  by (auto simp: dedupOk_def sorted_wrt_iff_nth_less farApart_def)

text \<open>
  Claim C6, as the code has it by design. \<open>notifyCurrent\<close> stands for a call of one of the
  four \<open>show...\<close> functions made from a render that has seen the buffer as it is at the
  call.
  \<^item> Such a call is a silent no-op (no entry, no toast, the state is the same) when the
    buffer \<^emph>\<open>holds\<close> an entry with the same kind and message whose timestamp is less than
    5000 ms before the call.
  \<^item> When the buffer holds no such entry at \<open>t1\<close>, such a call at \<open>t1\<close> followed by such a
    call with the same kind and message at \<open>t2\<close>, less than 5000 ms after \<open>t1\<close> (so also
    within 2 seconds), stores exactly one entry: the second call changes nothing, and the
    first puts its entry in front of the first 9 entries of the buffer. When the buffer
    held fewer than 10 entries it grows by one and \<open>unreadCount\<close> rises by exactly 1.
  \<^item> Every run of such calls, \<open>markAsRead\<close> and \<open>clearNotifications\<close> keeps the property
    that no two entries of the buffer with the same kind and message have timestamps
    less than 5000 ms apart; it holds in every buffer such a run reaches from the empty
    one.
  Nothing is said about a call made from a render that has not seen the buffer as it is.
\<close>

theorem notify_dedup:
  "((\<exists>n \<in> set (notifications st).
        n_message n = message \<and> n_type n = ty \<and> now - n_timestamp n < 5000)
      \<longrightarrow> notifyCurrent ty title message now st = st)
   \<and> (\<not> isDuplicate t1 ty message (notifications st) \<and> t2 - t1 < 5000 \<longrightarrow>
        notifyCurrent ty title2 message t2 (notifyCurrent ty title1 message t1 st)
          = notifyCurrent ty title1 message t1 st
      \<and> tl (notifications (notifyCurrent ty title1 message t1 st)) = take 9 (notifications st)
      \<and> n_type (hd (notifications (notifyCurrent ty title1 message t1 st))) = ty
      \<and> n_message (hd (notifications (notifyCurrent ty title1 message t1 st))) = message
      \<and> n_timestamp (hd (notifications (notifyCurrent ty title1 message t1 st))) = t1
      \<and> (length (notifications st) < 10 \<longrightarrow>
           length (notifications (notifyCurrent ty title1 message t1 st))
             = length (notifications st) + 1
         \<and> unreadCount (notifyCurrent ty title1 message t1 st) = unreadCount st + 1))
   \<and> (dedupOk (notifications st) \<longrightarrow> dedupOk (notifications (runCalls calls st)))
   \<and> (\<forall>i j. i < j \<and> j < length (notifications (runCalls calls emptyState))
          \<and> n_type (notifications (runCalls calls emptyState) ! i)
              = n_type (notifications (runCalls calls emptyState) ! j)
          \<and> n_message (notifications (runCalls calls emptyState) ! i)
              = n_message (notifications (runCalls calls emptyState) ! j)
        \<longrightarrow> 5000 \<le> \<bar>n_timestamp (notifications (runCalls calls emptyState) ! i)
                     - n_timestamp (notifications (runCalls calls emptyState) ! j)\<bar>)"
proof -
  have noop: "(\<exists>n \<in> set (notifications st).
        n_message n = message \<and> n_type n = ty \<and> now - n_timestamp n < 5000)
      \<longrightarrow> notifyCurrent ty title message now st = st"
    by (simp add: notifyCurrent_def notify_eq isDuplicate_iff)
  have two: "\<not> isDuplicate t1 ty message (notifications st) \<and> t2 - t1 < 5000 \<longrightarrow>
        notifyCurrent ty title2 message t2 (notifyCurrent ty title1 message t1 st)
          = notifyCurrent ty title1 message t1 st
      \<and> tl (notifications (notifyCurrent ty title1 message t1 st)) = take 9 (notifications st)
      \<and> n_type (hd (notifications (notifyCurrent ty title1 message t1 st))) = ty
      \<and> n_message (hd (notifications (notifyCurrent ty title1 message t1 st))) = message
      \<and> n_timestamp (hd (notifications (notifyCurrent ty title1 message t1 st))) = t1
      \<and> (length (notifications st) < 10 \<longrightarrow>
           length (notifications (notifyCurrent ty title1 message t1 st))
             = length (notifications st) + 1
         \<and> unreadCount (notifyCurrent ty title1 message t1 st) = unreadCount st + 1)"
  proof (intro impI, elim conjE)
    assume nd: "\<not> isDuplicate t1 ty message (notifications st)" and near: "t2 - t1 < 5000"
    have first: "notifyCurrent ty title1 message t1 st
        = addNotification t1 ty
               (case title1 of
                  None \<Rightarrow> (case ty of NSuccess \<Rightarrow> ''Success'' | NError \<Rightarrow> ''Error''
                            | NInfo \<Rightarrow> ''Information'' | NWarning \<Rightarrow> ''Warning'')
                | Some t \<Rightarrow> t)
               message st"
      using nd by (simp add: notifyCurrent_def notify_eq)
    have second: "notifyCurrent ty title2 message t2 (notifyCurrent ty title1 message t1 st)
          = notifyCurrent ty title1 message t1 st"
      unfolding first using isDuplicate_after_add [OF near]
      by (simp add: notifyCurrent_def notify_eq)
    show "notifyCurrent ty title2 message t2 (notifyCurrent ty title1 message t1 st)
          = notifyCurrent ty title1 message t1 st
      \<and> tl (notifications (notifyCurrent ty title1 message t1 st)) = take 9 (notifications st)
      \<and> n_type (hd (notifications (notifyCurrent ty title1 message t1 st))) = ty
      \<and> n_message (hd (notifications (notifyCurrent ty title1 message t1 st))) = message
      \<and> n_timestamp (hd (notifications (notifyCurrent ty title1 message t1 st))) = t1
      \<and> (length (notifications st) < 10 \<longrightarrow>
           length (notifications (notifyCurrent ty title1 message t1 st))
             = length (notifications st) + 1
         \<and> unreadCount (notifyCurrent ty title1 message t1 st) = unreadCount st + 1)"
      using second by (simp add: first addNotification_def unreadCount_def)
  qed
  have inv: "dedupOk (notifications st) \<longrightarrow> dedupOk (notifications (runCalls calls st))"
    by (simp add: dedupOk_runCalls)
  have "dedupOk (notifications emptyState)"
    by (simp add: dedupOk_def emptyState_def)
  then have "dedupOk (notifications (runCalls calls emptyState))"
    by (rule dedupOk_runCalls)
  then have reach: "\<forall>i j. i < j \<and> j < length (notifications (runCalls calls emptyState))
          \<and> n_type (notifications (runCalls calls emptyState) ! i)
              = n_type (notifications (runCalls calls emptyState) ! j)
          \<and> n_message (notifications (runCalls calls emptyState) ! i)
              = n_message (notifications (runCalls calls emptyState) ! j)
        \<longrightarrow> 5000 \<le> \<bar>n_timestamp (notifications (runCalls calls emptyState) ! i)
                     - n_timestamp (notifications (runCalls calls emptyState) ! j)\<bar>"
    unfolding dedupOk_iff .
  from noop two inv reach show ?thesis by blast
qed

text \<open>With "Saved" in the buffer since time 1000: a call at 2000 is a no-op; a call at
  7000 is stored and raises \<open>unreadCount\<close> from 1 to 2, and the call at 9000 after it is a
  no-op; two stored "Saved" entries are 6000 ms apart.\<close>

theorem notify_dedup_witness:
  "isDuplicate 2000 NSuccess ''Saved'' (notifications savedState)
   \<and> notifyCurrent NSuccess None ''Saved'' 2000 savedState = savedState
   \<and> \<not> isDuplicate 7000 NSuccess ''Saved'' (notifications savedState)
   \<and> (9000::int) - 7000 < 5000
   \<and> notifyCurrent NSuccess None ''Saved'' 9000
        (notifyCurrent NSuccess None ''Saved'' 7000 savedState)
       = notifyCurrent NSuccess None ''Saved'' 7000 savedState
   \<and> length (notifications savedState) < 10
   \<and> unreadCount savedState = 1
   \<and> unreadCount (notifyCurrent NSuccess None ''Saved'' 7000 savedState) = 2
   \<and> dedupOk (notifications savedState)
   \<and> dedupOk (notifications (runCalls twoSaved savedState))
   \<and> length (notifications (runCalls twoSaved emptyState)) = 2
   \<and> n_type (notifications (runCalls twoSaved emptyState) ! 0)
       = n_type (notifications (runCalls twoSaved emptyState) ! 1)
   \<and> n_message (notifications (runCalls twoSaved emptyState) ! 0)
       = n_message (notifications (runCalls twoSaved emptyState) ! 1)
   \<and> 5000 \<le> \<bar>n_timestamp (notifications (runCalls twoSaved emptyState) ! 0)
               - n_timestamp (notifications (runCalls twoSaved emptyState) ! 1)\<bar>"
proof -
  have s: "notifications savedState
      = [\<lparr> n_id = toString 1000, n_type = NSuccess, n_title = ''Success'',
           n_message = ''Saved'', n_timestamp = 1000, n_read = False \<rparr>]"
    by (simp add: savedState_def emptyState_def notifyCurrent_def showSuccess_def
        isDuplicate_def addNotification_def)
  have d1: "isDuplicate 2000 NSuccess ''Saved'' (notifications savedState)"
    by (simp add: isDuplicate_def s)
  have d2: "\<not> isDuplicate 7000 NSuccess ''Saved'' (notifications savedState)"
    by (simp add: isDuplicate_def s)
  have ok: "dedupOk (notifications savedState)"
    by (simp add: dedupOk_def s)
  have u: "unreadCount savedState = 1"
    by (simp add: unreadCount_def s)
  have two: "notifications (runCalls twoSaved emptyState)
      = [\<lparr> n_id = toString 6000, n_type = NSuccess, n_title = ''Success'',
           n_message = ''Saved'', n_timestamp = 6000, n_read = False \<rparr>,
         \<lparr> n_id = toString 0, n_type = NSuccess, n_title = ''Success'',
           n_message = ''Saved'', n_timestamp = 0, n_read = False \<rparr>]"
    by (simp add: twoSaved_def emptyState_def notifyCurrent_def showSuccess_def
        isDuplicate_def addNotification_def)
  from notify_dedup [of savedState "''Saved''" NSuccess 2000 None 7000 9000 None None twoSaved]
    d1 d2 ok u
  show ?thesis
    by (simp add: isDuplicate_iff s two)
qed

lemma burst_notifications:
  "notifications (runCalls burstCalls emptyState)
     = [\<lparr> n_id = toString 10, n_type = NInfo, n_title = ''Information'', n_message = ''j'',
          n_timestamp = 10, n_read = False \<rparr>,
        \<lparr> n_id = toString 9, n_type = NInfo, n_title = ''Information'', n_message = ''i'',
          n_timestamp = 9, n_read = False \<rparr>,
        \<lparr> n_id = toString 8, n_type = NInfo, n_title = ''Information'', n_message = ''h'',
          n_timestamp = 8, n_read = False \<rparr>,
        \<lparr> n_id = toString 7, n_type = NInfo, n_title = ''Information'', n_message = ''g'',
          n_timestamp = 7, n_read = False \<rparr>,
        \<lparr> n_id = toString 6, n_type = NInfo, n_title = ''Information'', n_message = ''f'',
          n_timestamp = 6, n_read = False \<rparr>,
        \<lparr> n_id = toString 5, n_type = NInfo, n_title = ''Information'', n_message = ''e'',
          n_timestamp = 5, n_read = False \<rparr>,
        \<lparr> n_id = toString 4, n_type = NInfo, n_title = ''Information'', n_message = ''d'',
          n_timestamp = 4, n_read = False \<rparr>,
        \<lparr> n_id = toString 3, n_type = NInfo, n_title = ''Information'', n_message = ''c'',
          n_timestamp = 3, n_read = False \<rparr>,
        \<lparr> n_id = toString 2, n_type = NInfo, n_title = ''Information'', n_message = ''b'',
          n_timestamp = 2, n_read = False \<rparr>,
        \<lparr> n_id = toString 1, n_type = NInfo, n_title = ''Information'', n_message = ''a'',
          n_timestamp = 1, n_read = False \<rparr>]"
  by (simp add: burstCalls_def emptyState_def notifyCurrent_def showSuccess_def showInfo_def
      isDuplicate_def addNotification_def)

text \<open>
  Claim C6 as stated fails in two places.
  \<^item> By design, the buffer keeps 10 entries. "Saved" is shown at time 0 and ten other
    messages follow within 10 ms, each call made from a render that has seen the buffer;
    this pushes the "Saved" entry out. A second "Saved" at time 11, 11 ms after the first,
    is not a no-op: it is stored and shown as a toast again. The buffer then holds 10
    unread entries before and after, so the two "Saved" calls at 11 and 12 leave
    \<open>unreadCount\<close> at 10 instead of raising it by 1.
  \<^item> By a defect of the duplicate test: it reads the array of the render that made the
    function, not the buffer. Two "Saved" calls at times 0 and 1 from one render, which has
    seen the empty buffer, both insert: the buffer holds two "Saved" entries 1 ms apart and
    \<open>unreadCount\<close> is 2.
\<close>

theorem burst_counterexample:
  "hd burstCalls = Notify NSuccess None ''Saved'' 0
   \<and> toasts (runCalls [hd burstCalls] emptyState) = [(NSuccess, ''Saved'')]
   \<and> toasts (notifyCurrent NSuccess None ''Saved'' 11 (runCalls burstCalls emptyState))
       = toasts (runCalls burstCalls emptyState) @ [(NSuccess, ''Saved'')]
   \<and> n_message (hd (notifications
         (notifyCurrent NSuccess None ''Saved'' 11 (runCalls burstCalls emptyState)))) = ''Saved''
   \<and> n_timestamp (hd (notifications
         (notifyCurrent NSuccess None ''Saved'' 11 (runCalls burstCalls emptyState)))) = 11
   \<and> unreadCount (runCalls burstCalls emptyState) = 10
   \<and> unreadCount (notifyCurrent NSuccess None ''Saved'' 12
         (notifyCurrent NSuccess None ''Saved'' 11 (runCalls burstCalls emptyState))) = 10
   \<and> notifications emptyState = []
   \<and> notifications (notify [] NSuccess None ''Saved'' 1
                       (notify [] NSuccess None ''Saved'' 0 emptyState))
       = [\<lparr> n_id = toString 1, n_type = NSuccess, n_title = ''Success'',
            n_message = ''Saved'', n_timestamp = 1, n_read = False \<rparr>,
          \<lparr> n_id = toString 0, n_type = NSuccess, n_title = ''Success'',
            n_message = ''Saved'', n_timestamp = 0, n_read = False \<rparr>]
   \<and> unreadCount (notify [] NSuccess None ''Saved'' 1
                     (notify [] NSuccess None ''Saved'' 0 emptyState)) = 2"
proof -
  have first: "hd burstCalls = Notify NSuccess None ''Saved'' 0"
    by (simp add: burstCalls_def)
  have ins: "toasts (runCalls [hd burstCalls] emptyState) = [(NSuccess, ''Saved'')]"
    by (simp add: first emptyState_def notifyCurrent_def showSuccess_def isDuplicate_def
        addNotification_def)
  have nd: "\<not> isDuplicate 11 NSuccess ''Saved'' (notifications (runCalls burstCalls emptyState))"
    by (simp add: isDuplicate_def burst_notifications)
  have again: "notifyCurrent NSuccess None ''Saved'' 11 (runCalls burstCalls emptyState)
      = addNotification 11 NSuccess ''Success'' ''Saved'' (runCalls burstCalls emptyState)"
    using nd by (simp add: notifyCurrent_def showSuccess_def)
  have dup: "isDuplicate 12 NSuccess ''Saved''
      (notifications
         (addNotification 11 NSuccess ''Success'' ''Saved'' (runCalls burstCalls emptyState)))"
    by (simp add: isDuplicate_def addNotification_def)
  have third: "notifyCurrent NSuccess None ''Saved'' 12
         (notifyCurrent NSuccess None ''Saved'' 11 (runCalls burstCalls emptyState))
      = addNotification 11 NSuccess ''Success'' ''Saved'' (runCalls burstCalls emptyState)"
    unfolding again using dup by (simp add: notifyCurrent_def showSuccess_def)
  have u0: "unreadCount (runCalls burstCalls emptyState) = 10"
    by (simp add: unreadCount_def burst_notifications)
  have u1: "unreadCount (addNotification 11 NSuccess ''Success'' ''Saved''
      (runCalls burstCalls emptyState)) = 10"
    by (simp add: unreadCount_def addNotification_def burst_notifications)
  have u12: "unreadCount (notifyCurrent NSuccess None ''Saved'' 12
         (notifyCurrent NSuccess None ''Saved'' 11 (runCalls burstCalls emptyState))) = 10"
    unfolding third by (rule u1)
  have t11: "toasts (notifyCurrent NSuccess None ''Saved'' 11 (runCalls burstCalls emptyState))
       = toasts (runCalls burstCalls emptyState) @ [(NSuccess, ''Saved'')]"
    unfolding again by (simp add: addNotification_def)
  have m11: "n_message (hd (notifications
         (notifyCurrent NSuccess None ''Saved'' 11 (runCalls burstCalls emptyState)))) = ''Saved''"
    unfolding again by (simp add: addNotification_def)
  have ts11: "n_timestamp (hd (notifications
         (notifyCurrent NSuccess None ''Saved'' 11 (runCalls burstCalls emptyState)))) = 11"
    unfolding again by (simp add: addNotification_def)
  have e: "notifications emptyState = []"
    by (simp add: emptyState_def)
  have stale: "notifications (notify [] NSuccess None ''Saved'' 1
                       (notify [] NSuccess None ''Saved'' 0 emptyState))
       = [\<lparr> n_id = toString 1, n_type = NSuccess, n_title = ''Success'',
            n_message = ''Saved'', n_timestamp = 1, n_read = False \<rparr>,
          \<lparr> n_id = toString 0, n_type = NSuccess, n_title = ''Success'',
            n_message = ''Saved'', n_timestamp = 0, n_read = False \<rparr>]"
    by (simp add: showSuccess_def isDuplicate_def addNotification_def emptyState_def)
  have stale_count: "unreadCount (notify [] NSuccess None ''Saved'' 1
                     (notify [] NSuccess None ''Saved'' 0 emptyState)) = 2"
    unfolding unreadCount_def stale by simp
  from first ins t11 m11 ts11 u0 u12 e stale stale_count show ?thesis by blast
qed

section \<open>Who sees which classification\<close>

lemma admin_classifications_set:
  "isAdmin st \<Longrightarrow>
     set (getAllClassifications st)
       = (\<Union>u \<in> set (registeredUsers st). set (ls_classifications st (u_id u)))"
  by (simp add: getAllClassifications_def)

lemma own_classifications_owner:
  "user st = Some b \<Longrightarrow> c \<in> set (getUserClassifications st) \<Longrightarrow> c_userId c = u_id b"
  by (simp add: getUserClassifications_def)

lemma newClassification_owner: "c_userId (newClassification now a d) = u_id a"
  by (simp add: newClassification_def Let_def)

lemma alice_record_stored:
  "ls_classifications (snd (addClassification 2000 batteryDraft (sessionOf alice))) ''user-1''
     = [newClassification 2000 alice batteryDraft]"
  by (simp add: addClassification_def Let_def sessionOf_simps alice_def)

text \<open>
  Claim C4, as the code has it; \<open>list\<close> is \<open>getAllClassifications\<close>, the accessor that
  serves members and administrators alike. Let \<open>a\<close> be logged in and create a record.
  \<^item> The record is in \<open>a\<close>'s own list (\<open>getUserClassifications\<close>) afterwards, and in
    \<open>list(a)\<close> when \<open>a\<close> is not treated as an administrator or is one of the registered
    users.
  \<^item> In every state whose user \<open>b\<close> has another id and is not treated as an
    administrator (neither \<open>role\<close> nor \<open>userType\<close> is \<open>'admin'\<close>), \<open>list(b)\<close> does not contain
    the record.
  \<^item> For every administrator the list consists of exactly the records stored in
    \<open>localStorage\<close> under the keys of the registered users, and \<open>getAllReports\<close> is the
    whole report store.
\<close>

theorem list_visibility:
  assumes "user st = Some a"
  shows "newClassification now a d
           \<in> set (getUserClassifications (snd (addClassification now d st)))
       \<and> (\<not> isAdmin st \<or> u_id a \<in> u_id ` set (registeredUsers st) \<longrightarrow>
            newClassification now a d
              \<in> set (getAllClassifications (snd (addClassification now d st))))
       \<and> (\<forall>stb b. user stb = Some b \<and> u_id b \<noteq> u_id a \<and> \<not> isAdmin stb \<longrightarrow>
            newClassification now a d \<notin> set (getAllClassifications stb))
       \<and> (\<forall>sta. isAdmin sta \<longrightarrow>
            set (getAllClassifications sta)
              = (\<Union>u \<in> set (registeredUsers sta). set (ls_classifications sta (u_id u)))
            \<and> getAllReports sta = reports sta)"
proof -
  let ?st' = "snd (addClassification now d st)"
  let ?r = "newClassification now a d"
  have u': "user ?st' = Some a"
    using assms by (simp add: addClassification_def Let_def)
  have adm: "isAdmin ?st' = isAdmin st"
    using assms u' by (simp add: isAdmin_def)
  have cl: "classifications ?st' = ?r # classifications st"
    using assms by (simp add: addClassification_def Let_def)
  have ls: "ls_classifications ?st' (u_id a) = ?r # classifications st"
    using assms by (simp add: addClassification_def Let_def)
  have reg: "registeredUsers ?st' = registeredUsers st"
    using assms by (simp add: addClassification_def Let_def)
  have own: "?r \<in> set (getUserClassifications ?st')"
    using u' cl by (simp add: getUserClassifications_def newClassification_owner)
  have all: "\<not> isAdmin st \<or> u_id a \<in> u_id ` set (registeredUsers st) \<longrightarrow>
               ?r \<in> set (getAllClassifications ?st')"
  proof (cases "isAdmin st")
    case False
    then show ?thesis
      using own adm by (simp add: getAllClassifications_def)
  next
    case True
    show ?thesis
    proof
      assume "\<not> isAdmin st \<or> u_id a \<in> u_id ` set (registeredUsers st)"
      with True obtain u where u: "u \<in> set (registeredUsers st)" "u_id u = u_id a"
        by auto
      have "isAdmin ?st'" using True adm by simp
      then have "set (getAllClassifications ?st')
          = (\<Union>u \<in> set (registeredUsers ?st'). set (ls_classifications ?st' (u_id u)))"
        by (rule admin_classifications_set)
      moreover have "?r \<in> set (ls_classifications ?st' (u_id u))"
        using ls u(2) by simp
      ultimately show "?r \<in> set (getAllClassifications ?st')"
        using u(1) reg by auto
    qed
  qed
  have others: "\<forall>stb b. user stb = Some b \<and> u_id b \<noteq> u_id a \<and> \<not> isAdmin stb \<longrightarrow>
            ?r \<notin> set (getAllClassifications stb)"
  proof (intro allI impI notI)
    fix stb b
    assume h: "user stb = Some b \<and> u_id b \<noteq> u_id a \<and> \<not> isAdmin stb"
      and m: "?r \<in> set (getAllClassifications stb)"
    from h m have "?r \<in> set (getUserClassifications stb)"
      by (simp add: getAllClassifications_def)
    with h have "c_userId ?r = u_id b"
      using own_classifications_owner by blast
    with h show False by (simp add: newClassification_owner)
  qed
  have admin: "\<forall>sta. isAdmin sta \<longrightarrow>
            set (getAllClassifications sta)
              = (\<Union>u \<in> set (registeredUsers sta). set (ls_classifications sta (u_id u)))
            \<and> getAllReports sta = reports sta"
    by (simp add: admin_classifications_set getAllReports_def)
  from own all others admin show ?thesis by blast
qed

text \<open>Alice creates a record: she sees it, Bob does not, and the administrator sees
  Alice's report.\<close>

theorem list_visibility_witness:
  "user (sessionOf alice) = Some alice
   \<and> newClassification 2000 alice batteryDraft
       \<in> set (getUserClassifications (snd (addClassification 2000 batteryDraft (sessionOf alice))))
   \<and> \<not> isAdmin (sessionOf alice)
   \<and> newClassification 2000 alice batteryDraft
       \<in> set (getAllClassifications (snd (addClassification 2000 batteryDraft (sessionOf alice))))
   \<and> user (sessionOf bob) = Some bob \<and> u_id bob \<noteq> u_id alice \<and> \<not> isAdmin (sessionOf bob)
   \<and> newClassification 2000 alice batteryDraft \<notin> set (getAllClassifications (sessionOf bob))
   \<and> isAdmin (sessionOf adminUser)
   \<and> getAllReports (sessionOf adminUser) = [aliceReport]"
proof -
  have u: "user (sessionOf alice) = Some alice"
    by (simp add: sessionOf_simps)
  have na: "\<not> isAdmin (sessionOf alice)"
    by (simp add: isAdmin_def sessionOf_simps alice_def)
  have b: "user (sessionOf bob) = Some bob \<and> u_id bob \<noteq> u_id alice \<and> \<not> isAdmin (sessionOf bob)"
    by (simp add: isAdmin_def sessionOf_simps alice_def bob_def)
  have ad: "isAdmin (sessionOf adminUser)"
    by (simp add: isAdmin_def sessionOf_simps adminUser_def)
  from list_visibility [OF u, of 2000 batteryDraft] u na b ad
  show ?thesis
    by (simp add: sessionOf_simps)
qed

text \<open>
  Claim C4 as stated fails in two places. Alice creates a record; then Carol logs in,
  whose \<open>role\<close> is \<open>'user'\<close> and whose \<open>userType\<close> is \<open>'admin'\<close>: her list contains Alice's
  record. And an administrator who is not among the registered users creates a record
  and gets the empty list.
\<close>

theorem visibility_counterexample:
  "u_role carol \<noteq> RoleAdmin
   \<and> u_id carol \<noteq> u_id alice
   \<and> user (sessionOf alice) = Some alice
   \<and> user (loadClassifications
        ((snd (addClassification 2000 batteryDraft (sessionOf alice)))\<lparr> user := Some carol \<rparr>))
       = Some carol
   \<and> newClassification 2000 alice batteryDraft
       \<in> set (getAllClassifications (loadClassifications
            ((snd (addClassification 2000 batteryDraft (sessionOf alice)))
               \<lparr> user := Some carol \<rparr>)))
   \<and> u_role adminUser = RoleAdmin
   \<and> user (emptyState\<lparr> user := Some adminUser \<rparr>) = Some adminUser
   \<and> fst (addClassification 2000 batteryDraft (emptyState\<lparr> user := Some adminUser \<rparr>)) = Done
   \<and> getAllClassifications
        (snd (addClassification 2000 batteryDraft (emptyState\<lparr> user := Some adminUser \<rparr>))) = []"
proof -
  let ?stc = "loadClassifications
        ((snd (addClassification 2000 batteryDraft (sessionOf alice)))\<lparr> user := Some carol \<rparr>)"
  have uc: "user ?stc = Some carol"
    by (simp add: loadClassifications_def)
  have adm: "isAdmin ?stc"
    unfolding isAdmin_def uc by (simp add: carol_def)
  have reg: "registeredUsers ?stc = [alice, bob, carol, adminUser]"
    by (simp add: loadClassifications_def addClassification_def Let_def sessionOf_simps)
  have ls: "ls_classifications ?stc ''user-1'' = [newClassification 2000 alice batteryDraft]"
    using alice_record_stored by (simp add: loadClassifications_def)
  have seen: "newClassification 2000 alice batteryDraft \<in> set (getAllClassifications ?stc)"
    unfolding admin_classifications_set [OF adm] reg using ls by (simp add: alice_def)
  let ?sta = "snd (addClassification 2000 batteryDraft (emptyState\<lparr> user := Some adminUser \<rparr>))"
  have ok: "fst (addClassification 2000 batteryDraft (emptyState\<lparr> user := Some adminUser \<rparr>))
      = Done"
    by (simp add: addClassification_def Let_def)
  have ua: "user ?sta = Some adminUser"
    by (simp add: addClassification_def Let_def)
  have adma: "isAdmin ?sta"
    unfolding isAdmin_def ua by (simp add: adminUser_def)
  have rega: "registeredUsers ?sta = []"
    by (simp add: addClassification_def Let_def emptyState_def)
  have none: "getAllClassifications ?sta = []"
    using adma by (simp add: getAllClassifications_def rega)
  from seen uc ok none show ?thesis
    by (simp add: carol_def alice_def adminUser_def sessionOf_simps)
qed

end
